theory Spec2Isabelle
  imports Main "HOL-Library.Sublist" "HOL-Library.Log_Nat"
begin

section \<open>Solidity values\<close>

text \<open>
  \<open>uint256\<close> values are natural numbers below \<open>2 ^ 256\<close>. The contracts are compiled
  with Solidity 0.8, where \<open>+\<close> and \<open>++\<close> revert (Panic 0x11) when the result does not
  fit; every addition of the source is written with that check. An address is a
  number as well.
\<close>

type_synonym address = nat

definition UINT256_LIMIT :: nat where
  "UINT256_LIMIT = 2 ^ 256"

text \<open>The ways a call of either contract can revert: one per \<open>require\<close> message.\<close>

datatype revert =
    OnlyAdmin                 \<comment> \<open>"Only admin can perform this action"\<close>
  | OnlyVerifiedVoter         \<comment> \<open>"Only verified voters can perform this action"\<close>
  | OnlyGovernance            \<comment> \<open>"Only governance contract can call"\<close>
  | InvalidProposalID         \<comment> \<open>"Invalid proposal ID"\<close>
  | VotingPeriodEnded         \<comment> \<open>"Voting period has ended"\<close>
  | ProposalNotActive         \<comment> \<open>"Proposal is not active"\<close>
  | AlreadyVotedOnProposal    \<comment> \<open>"Already voted on this proposal"\<close>
  | InvalidAddress            \<comment> \<open>"Invalid address"\<close>
  | StartIndexOutOfBounds     \<comment> \<open>"Start index out of bounds"\<close>
  | InvalidRecordID           \<comment> \<open>"Invalid record ID"\<close>
  | PanicOverflow             \<comment> \<open>Panic(0x11): checked arithmetic\<close>
  | PanicIndex                \<comment> \<open>Panic(0x32): array index out of bounds\<close>

section \<open>The governance contract (TransparenCityGovernance)\<close>

datatype ProposalStatus = Active | Passed | Rejected | Implemented

text \<open>The position of a status in the enum, which is also the lifecycle order.\<close>

fun status_rank :: "ProposalStatus \<Rightarrow> nat" where
  "status_rank Active = 0"
| "status_rank Passed = 1"
| "status_rank Rejected = 2"
| "status_rank Implemented = 3"

record Proposal =
  pid :: nat
  title :: string
  description :: string
  ipfsDocHash :: string
  creationTime :: nat
  votingEndTime :: nat
  proposer :: address
  yesVotes :: nat
  noVotes :: nat
  status :: ProposalStatus
  implementationDetails :: string
  hasVoted :: "address \<Rightarrow> bool"

record AuditRecord =
  user :: address
  proposalId :: nat
  action :: string
  timestamp :: nat

text \<open>
  Contract storage. A Solidity mapping is total: a key never written holds the zero
  value of its type, here \<open>zero_Proposal\<close> and \<open>False\<close>. \<open>this\<close> is the contract's own
  address (\<open>address(this)\<close>).
\<close>

record Governance =
  this :: address
  admin :: address
  proposalCount :: nat
  proposals :: "nat \<Rightarrow> Proposal"
  verifiedVoters :: "address \<Rightarrow> bool"
  auditTrail :: "AuditRecord list"

definition VOTING_PERIOD :: nat where
  "VOTING_PERIOD = 7 * 86400"

definition zero_Proposal :: Proposal where
  "zero_Proposal =
     \<lparr>pid = 0, title = [], description = [], ipfsDocHash = [], creationTime = 0,
      votingEndTime = 0, proposer = 0, yesVotes = 0, noVotes = 0, status = Active,
      implementationDetails = [], hasVoted = (\<lambda>_. False)\<rparr>"

text \<open>The constructor, run by \<open>sender\<close> for a contract deployed at address \<open>self\<close>.\<close>

definition constructor :: "address \<Rightarrow> address \<Rightarrow> Governance" where
  "constructor self sender =
     \<lparr>this = self, admin = sender, proposalCount = 0, proposals = (\<lambda>_. zero_Proposal),
      verifiedVoters = (\<lambda>_. False), auditTrail = []\<rparr>"

text \<open>
  Every function below takes \<open>msg.sender\<close> and \<open>block.timestamp\<close> first. Events are
  logs outside the contract's storage and are not modelled.
\<close>

definition recordAudit :: "nat \<Rightarrow> address \<Rightarrow> nat \<Rightarrow> string \<Rightarrow> Governance \<Rightarrow> Governance" where
  "recordAudit now u p a s =
     s\<lparr>auditTrail := auditTrail s @ [\<lparr>user = u, proposalId = p, action = a, timestamp = now\<rparr>]\<rparr>"

definition verifyVoter :: "address \<Rightarrow> nat \<Rightarrow> address \<Rightarrow> Governance \<Rightarrow> revert + Governance" where
  "verifyVoter sender now voter s =
     (if sender \<noteq> admin s then Inl OnlyAdmin
      else Inr (recordAudit now voter 0 ''VOTER_VERIFIED''
                 (s\<lparr>verifiedVoters := (verifiedVoters s)(voter := True)\<rparr>)))"

definition updateProposalStatus ::
  "address \<Rightarrow> nat \<Rightarrow> nat \<Rightarrow> ProposalStatus \<Rightarrow> string \<Rightarrow> Governance \<Rightarrow> revert + Governance" where
  "updateProposalStatus sender now p newStatus details s =
     (if sender \<noteq> admin s then Inl OnlyAdmin
      else if \<not> (p \<le> proposalCount s \<and> p > 0) then Inl InvalidProposalID
      else
        let s1 = s\<lparr>proposals := (proposals s)(p := (proposals s p)\<lparr>status := newStatus\<rparr>)\<rparr>;
            s2 = (if newStatus = Implemented
                  then s1\<lparr>proposals :=
                         (proposals s1)(p := (proposals s1 p)\<lparr>implementationDetails := details\<rparr>)\<rparr>
                  else s1)
        in Inr (recordAudit now sender p ''STATUS_UPDATED'' s2))"

definition createProposal ::
  "address \<Rightarrow> nat \<Rightarrow> string \<Rightarrow> string \<Rightarrow> string \<Rightarrow> Governance \<Rightarrow> revert + Governance" where
  "createProposal sender now t d h s =
     (if \<not> verifiedVoters s sender then Inl OnlyVerifiedVoter
      else if \<not> proposalCount s + 1 < UINT256_LIMIT then Inl PanicOverflow
      else if \<not> now + VOTING_PERIOD < UINT256_LIMIT then Inl PanicOverflow
      else
        let n = proposalCount s + 1;
            newProposal = (proposals s n)
              \<lparr>pid := n, title := t, description := d, ipfsDocHash := h,
               creationTime := now, votingEndTime := now + VOTING_PERIOD,
               proposer := sender, status := Active\<rparr>
        in Inr (recordAudit now sender n ''PROPOSAL_CREATED''
                 (s\<lparr>proposalCount := n, proposals := (proposals s)(n := newProposal)\<rparr>)))"

definition checkProposalStatus :: "nat \<Rightarrow> nat \<Rightarrow> Governance \<Rightarrow> Governance" where
  "checkProposalStatus now p s =
     (let proposal = proposals s p in
      if status proposal = Active \<and> now \<ge> votingEndTime proposal then
        let proposal' = (if yesVotes proposal > noVotes proposal
                         then proposal\<lparr>status := Passed\<rparr>
                         else proposal\<lparr>status := Rejected\<rparr>)
        in recordAudit now (this s) p ''STATUS_UPDATED_AUTO''
             (s\<lparr>proposals := (proposals s)(p := proposal')\<rparr>)
      else s)"

definition castVote :: "address \<Rightarrow> nat \<Rightarrow> nat \<Rightarrow> bool \<Rightarrow> Governance \<Rightarrow> revert + Governance" where
  "castVote sender now p support s =
     (if \<not> verifiedVoters s sender then Inl OnlyVerifiedVoter
      else if \<not> (p \<le> proposalCount s \<and> p > 0) then Inl InvalidProposalID
      else
        let proposal = proposals s p in
        if \<not> now < votingEndTime proposal then Inl VotingPeriodEnded
        else if \<not> status proposal = Active then Inl ProposalNotActive
        else if hasVoted proposal sender then Inl AlreadyVotedOnProposal
        else
          let voted = proposal\<lparr>hasVoted := (hasVoted proposal)(sender := True)\<rparr> in
          if \<not> (if support then yesVotes voted else noVotes voted) + 1 < UINT256_LIMIT
          then Inl PanicOverflow
          else
            let counted = (if support then voted\<lparr>yesVotes := yesVotes voted + 1\<rparr>
                           else voted\<lparr>noVotes := noVotes voted + 1\<rparr>);
                s1 = s\<lparr>proposals := (proposals s)(p := counted)\<rparr>;
                s2 = recordAudit now sender p (if support then ''VOTE_YES'' else ''VOTE_NO'') s1
            in Inr (checkProposalStatus now p s2))"

text \<open>The view functions of the contract.\<close>

definition getAuditTrailLength :: "Governance \<Rightarrow> nat" where
  "getAuditTrailLength s = length (auditTrail s)"

definition hasVoted_view :: "nat \<Rightarrow> address \<Rightarrow> Governance \<Rightarrow> revert + bool" where
  "hasVoted_view p voter s =
     (if \<not> (p \<le> proposalCount s \<and> p > 0) then Inl InvalidProposalID
      else Inr (hasVoted (proposals s p) voter))"

text \<open>
  A transaction is a sender, a block timestamp and the call made. A transaction that
  reverts leaves the storage as it was.
\<close>

datatype gov_call =
    VerifyVoter address
  | UpdateProposalStatus nat ProposalStatus string
  | CreateProposal string string string
  | CastVote nat bool
  | CheckProposalStatus nat

fun gov_step :: "address \<Rightarrow> nat \<Rightarrow> gov_call \<Rightarrow> Governance \<Rightarrow> revert + Governance" where
  "gov_step sender now (VerifyVoter v) s = verifyVoter sender now v s"
| "gov_step sender now (UpdateProposalStatus p st d) s = updateProposalStatus sender now p st d s"
| "gov_step sender now (CreateProposal t d h) s = createProposal sender now t d h s"
| "gov_step sender now (CastVote p b) s = castVote sender now p b s"
| "gov_step sender now (CheckProposalStatus p) s = Inr (checkProposalStatus now p s)"

fun gov_tx :: "address \<times> nat \<times> gov_call \<Rightarrow> Governance \<Rightarrow> Governance" where
  "gov_tx (sender, now, c) s = (case gov_step sender now c s of Inl _ \<Rightarrow> s | Inr s' \<Rightarrow> s')"

definition gov_run :: "(address \<times> nat \<times> gov_call) list \<Rightarrow> Governance \<Rightarrow> Governance" where
  "gov_run txs s = fold gov_tx txs s"

section \<open>The audit-trail contract (TransparentAuditTrail)\<close>

text \<open>
  The record of this contract carries its own id. Its fields are prefixed with \<open>r\<close>
  where the governance contract's record already uses the name; \<open>bytes32\<close> values are
  numbers.
\<close>

record TrailRecord =
  rid :: nat
  rtimestamp :: nat
  actor :: address
  actionType :: nat
  rproposalId :: nat
  ipfsDataHash :: nat
  metadataHash :: nat

record Trail =
  trail_admin :: address
  governanceContract :: address
  auditRecords :: "TrailRecord list"
  proposalAuditRecords :: "nat \<Rightarrow> nat list"
  userAuditRecords :: "address \<Rightarrow> nat list"

definition trail_constructor :: "address \<Rightarrow> Trail" where
  "trail_constructor sender =
     \<lparr>trail_admin = sender, governanceContract = 0, auditRecords = [],
      proposalAuditRecords = (\<lambda>_. []), userAuditRecords = (\<lambda>_. [])\<rparr>"

definition setGovernanceContract :: "address \<Rightarrow> address \<Rightarrow> Trail \<Rightarrow> revert + Trail" where
  "setGovernanceContract sender g s =
     (if sender \<noteq> trail_admin s then Inl OnlyAdmin
      else if \<not> g \<noteq> 0 then Inl InvalidAddress
      else Inr (s\<lparr>governanceContract := g\<rparr>))"

text \<open>\<open>recordAudit\<close> of the audit-trail contract: the new state and the returned id.\<close>

definition trail_recordAudit ::
  "address \<Rightarrow> nat \<Rightarrow> address \<Rightarrow> nat \<Rightarrow> nat \<Rightarrow> nat \<Rightarrow> nat \<Rightarrow> Trail \<Rightarrow> revert + (Trail \<times> nat)" where
  "trail_recordAudit sender now a ty p ipfs meta s =
     (if sender \<noteq> governanceContract s then Inl OnlyGovernance
      else
        let recordId = length (auditRecords s);
            s1 = s\<lparr>auditRecords := auditRecords s @
                   [\<lparr>rid = recordId, rtimestamp = now, actor = a, actionType = ty,
                     rproposalId = p, ipfsDataHash = ipfs, metadataHash = meta\<rparr>]\<rparr>;
            s2 = (if p > 0
                  then s1\<lparr>proposalAuditRecords :=
                         (proposalAuditRecords s1)(p := proposalAuditRecords s1 p @ [recordId])\<rparr>
                  else s1);
            s3 = s2\<lparr>userAuditRecords :=
                      (userAuditRecords s2)(a := userAuditRecords s2 a @ [recordId])\<rparr>
        in Inr (s3, recordId))"

definition getAuditCount :: "Trail \<Rightarrow> nat" where
  "getAuditCount s = length (auditRecords s)"

definition getProposalAudits :: "nat \<Rightarrow> Trail \<Rightarrow> nat list" where
  "getProposalAudits p s = proposalAuditRecords s p"

definition getUserAudits :: "address \<Rightarrow> Trail \<Rightarrow> nat list" where
  "getUserAudits u s = userAuditRecords s u"

definition getAuditDetails :: "nat \<Rightarrow> Trail \<Rightarrow> revert + (nat \<times> address \<times> nat \<times> nat \<times> nat \<times> nat)" where
  "getAuditDetails recordId s =
     (if \<not> recordId < length (auditRecords s) then Inl InvalidRecordID
      else let r = auditRecords s ! recordId
           in Inr (rtimestamp r, actor r, actionType r, rproposalId r, ipfsDataHash r,
                   metadataHash r))"

text \<open>
  \<open>getAuditBatch\<close> returns five arrays of the same length. The loop fills position
  \<open>i\<close> of each from record \<open>_startIndex + i\<close>; reading past the end of the storage
  array would be Panic(0x32). The counter \<open>i\<close> stays below \<open>_count\<close>, so \<open>i++\<close>
  cannot overflow.
\<close>

record AuditBatch =
  ids :: "nat list"
  timestamps :: "nat list"
  actors :: "address list"
  actionTypes :: "nat list"
  proposalIds :: "nat list"

function batch_loop ::
  "TrailRecord list \<Rightarrow> nat \<Rightarrow> nat \<Rightarrow> nat \<Rightarrow> AuditBatch \<Rightarrow> revert + AuditBatch" where
  "batch_loop recs start count i b =
     (if i < count then
        if \<not> start + i < length recs then Inl PanicIndex
        else
          let r = recs ! (start + i)
          in batch_loop recs start count (i + 1)
               (b\<lparr>ids := (ids b)[i := rid r],
                  timestamps := (timestamps b)[i := rtimestamp r],
                  actors := (actors b)[i := actor r],
                  actionTypes := (actionTypes b)[i := actionType r],
                  proposalIds := (proposalIds b)[i := rproposalId r]\<rparr>)
      else Inr b)"
  by pat_completeness auto
termination
  by (relation "measure (\<lambda>(recs, start, count, i, b). count - i)") auto

declare batch_loop.simps [simp del]

definition getAuditBatch :: "nat \<Rightarrow> nat \<Rightarrow> Trail \<Rightarrow> revert + AuditBatch" where
  "getAuditBatch startIndex count s =
     (if \<not> startIndex < length (auditRecords s) then Inl StartIndexOutOfBounds
      else if \<not> startIndex + count < UINT256_LIMIT then Inl PanicOverflow
      else
        let count' = (if startIndex + count > length (auditRecords s)
                      then length (auditRecords s) - startIndex else count)
        in batch_loop (auditRecords s) startIndex count' 0
             \<lparr>ids = replicate count' 0, timestamps = replicate count' 0,
              actors = replicate count' 0, actionTypes = replicate count' 0,
              proposalIds = replicate count' 0\<rparr>)"

datatype trail_call =
    SetGovernanceContract address
  | RecordAudit address nat nat nat nat

fun trail_step :: "address \<Rightarrow> nat \<Rightarrow> trail_call \<Rightarrow> Trail \<Rightarrow> revert + Trail" where
  "trail_step sender now (SetGovernanceContract g) s = setGovernanceContract sender g s"
| "trail_step sender now (RecordAudit a ty p ipfs meta) s =
     map_sum id fst (trail_recordAudit sender now a ty p ipfs meta s)"

fun trail_tx :: "address \<times> nat \<times> trail_call \<Rightarrow> Trail \<Rightarrow> Trail" where
  "trail_tx (sender, now, c) s = (case trail_step sender now c s of Inl _ \<Rightarrow> s | Inr s' \<Rightarrow> s')"

definition trail_run :: "(address \<times> nat \<times> trail_call) list \<Rightarrow> Trail \<Rightarrow> Trail" where
  "trail_run txs s = fold trail_tx txs s"

section \<open>JavaScript numbers\<close>

text \<open>
  A JavaScript \<open>Number\<close> is an IEEE 754 double. A finite one is given by its value, a
  rational number; the two zeros are not told apart (they are equal under \<open>===\<close>, and
  no sum below depends on the sign of a zero). The sum of two finite numbers is their
  exact sum rounded to the nearest double, a tie going to the even significand: the
  significand has 53 bits, the exponent of the last bit is at least \<open>-1074\<close>, and a
  result of magnitude \<open>2 ^ 1024\<close> or more is an infinity.
\<close>

datatype number = NaN | Infinity | MinusInfinity | Finite rat

text \<open>For \<open>x > 0\<close>, the \<open>k\<close> with \<open>2 ^ k \<le> x < 2 ^ (k + 1)\<close>.\<close>

definition floor_log2 :: "rat \<Rightarrow> int" where
  "floor_log2 x =
     (let (p, q) = quotient_of x; k = bitlen p - bitlen q
      in if 2 powi k \<le> x then k else k - 1)"

definition round_half_even :: "rat \<Rightarrow> int" where
  "round_half_even x =
     (let f = \<lfloor>x\<rfloor>; d = x - of_int f
      in if d < 1 / 2 then f else if 1 / 2 < d then f + 1 else if even f then f else f + 1)"

definition round_double :: "rat \<Rightarrow> number" where
  "round_double x =
     (if x = 0 then Finite 0
      else
        let e = max (floor_log2 \<bar>x\<bar> - 52) (- 1074);
            y = of_int (round_half_even (x / 2 powi e)) * 2 powi e
        in if 2 powi 1024 \<le> y then Infinity
           else if y \<le> - (2 powi 1024) then MinusInfinity
           else Finite y)"

text \<open>The operator \<open>+\<close> on numbers; \<open>x - 1\<close> is \<open>x + (-1)\<close>.\<close>

fun js_plus :: "number \<Rightarrow> number \<Rightarrow> number" where
  "js_plus NaN b = NaN"
| "js_plus a NaN = NaN"
| "js_plus Infinity MinusInfinity = NaN"
| "js_plus MinusInfinity Infinity = NaN"
| "js_plus Infinity b = Infinity"
| "js_plus a Infinity = Infinity"
| "js_plus MinusInfinity b = MinusInfinity"
| "js_plus a MinusInfinity = MinusInfinity"
| "js_plus (Finite x) (Finite y) = round_double (x + y)"

text \<open>
  A \<open>Number\<close> path of a document holds a number or \<open>null\<close>; in a sum \<open>null\<close> counts
  as 0.
\<close>

datatype counter = Null | Num number

fun to_number :: "counter \<Rightarrow> number" where
  "to_number Null = Finite 0"
| "to_number (Num x) = x"

section \<open>The REST backend (Express controllers over Mongoose documents)\<close>

text \<open>
  The database is a record of collections, passed through every controller and
  returned with the response. A controller that calls \<open>next(new ErrorResponse ...)\<close>, or
  in which Mongoose throws (\<open>asyncHandler\<close> passes the exception on), answers with an
  error; what it had saved before stays saved. Object ids are numbers, drawn from a
  counter. Strings are ASCII, so that the length of a string is its number of characters.
  The documents have the fields of the schemas that the controllers read or write;
  the dates of creation and update, locations and attachments are left out.
\<close>

type_synonym objectId = nat

datatype api_error =
    NoProposal              \<comment> \<open>404 "No proposal with the id of ..."\<close>
  | NotOpenForVoting        \<comment> \<open>400 "Proposal is not currently open for voting"\<close>
  | AlreadyVoted            \<comment> \<open>400 "You have already voted on this proposal"\<close>
  | NoVote                  \<comment> \<open>404 "No vote with the id of ..."\<close>
  | NotAuthorizedVote       \<comment> \<open>401 "Not authorized to update this vote"\<close>
  | VotingEnded             \<comment> \<open>400 "Voting period has ended for this proposal"\<close>
  | NotOfficial             \<comment> \<open>403 "Not authorized to provide official responses"\<close>
  | ResponseExists          \<comment> \<open>400 "An official response already exists for this proposal"\<close>
  | VerificationFailed      \<comment> \<open>500 "Blockchain verification failed"\<close>
  | NoResponse              \<comment> \<open>404 "No response found with id ..."\<close>
  | NotAuthorizedResponse   \<comment> \<open>403 "Not authorized to update this response"\<close>
  | ValidationError         \<comment> \<open>a schema validator rejected the document\<close>
  | DuplicateKey            \<comment> \<open>E11000: a unique index rejected the write\<close>
  | TypeError               \<comment> \<open>a property of \<open>null\<close> was read\<close>

record VoteCount =
  yes :: counter
  no :: counter
  abstain :: counter

record ProposalDoc =
  p_title :: string
  p_description :: string
  category :: string
  author :: objectId
  p_status :: string
  voteCount :: VoteCount
  votingDeadline :: "nat option"

record VoteDoc =
  v_id :: objectId
  v_proposal :: objectId
  v_user :: objectId
  vote :: string
  reason :: "string option"

record ResponseDoc =
  o_id :: objectId
  o_proposal :: objectId
  respondent :: objectId
  department :: string
  position :: string
  o_status :: string
  response :: string
  rationale :: "string option"
  nextSteps :: "string option"
  isVerified :: bool
  verificationProof :: "string option"

record Backend =
  proposalDocs :: "objectId \<rightharpoonup> ProposalDoc"
  voteDocs :: "VoteDoc list"
  responseDocs :: "ResponseDoc list"
  nextId :: objectId

text \<open>\<open>req.user\<close>, as the authentication middleware sets it.\<close>

record User =
  u_id :: objectId
  isGovernmentOfficial :: bool
  isAdmin :: bool

definition empty_Backend :: Backend where
  "empty_Backend = \<lparr>proposalDocs = Map.empty, voteDocs = [], responseDocs = [], nextId = 0\<rparr>"

subsection \<open>Schema validators\<close>

definition is_space :: "char \<Rightarrow> bool" where
  "is_space c = (c \<in> set [CHR '' '', CHR 0x09, CHR 0x0A, CHR 0x0B, CHR 0x0C, CHR 0x0D])"

definition trim :: "string \<Rightarrow> string" where
  "trim s = rev (dropWhile is_space (rev (dropWhile is_space s)))"

text \<open>\<open>required\<close> on a string path: the value is there and is not the empty string.\<close>

fun required :: "string option \<Rightarrow> bool" where
  "required None = False"
| "required (Some s) = (s \<noteq> [])"

fun maxlength :: "nat \<Rightarrow> string option \<Rightarrow> bool" where
  "maxlength n None = True"
| "maxlength n (Some s) = (length s \<le> n)"

fun enum :: "string list \<Rightarrow> string option \<Rightarrow> bool" where
  "enum vs None = True"
| "enum vs (Some s) = (s \<in> set vs)"

definition proposal_categories :: "string list" where
  "proposal_categories =
     [''Environment'', ''Infrastructure'', ''Education'', ''Healthcare'', ''Public Safety'',
      ''Economy'', ''Housing'', ''Transportation'', ''Culture'', ''Other'']"

definition proposal_statuses :: "string list" where
  "proposal_statuses =
     [''draft'', ''submitted'', ''under_review'', ''voting'', ''approved'', ''rejected'',
      ''implemented'']"

definition vote_choices :: "string list" where
  "vote_choices = [''yes'', ''no'', ''abstain'']"

definition response_statuses :: "string list" where
  "response_statuses =
     [''under_review'', ''approved'', ''rejected'', ''partially_approved'', ''deferred'']"

subsection \<open>controllers/proposals.js\<close>

text \<open>
  The request body of \<open>createProposal\<close> goes to \<open>Proposal.create\<close> as it is, so it may
  carry any field of the schema; a field that is absent takes the schema's default.
\<close>

record ProposalBody =
  b_title :: "string option"
  b_description :: "string option"
  b_category :: "string option"
  b_status :: "string option"
  b_yes :: "counter option"
  b_no :: "counter option"
  b_abstain :: "counter option"
  b_votingDeadline :: "nat option"

text \<open>A \<open>Number\<close> path takes \<open>null\<close> and any number but \<open>NaN\<close>, which the cast
  refuses.\<close>

fun castable :: "counter option \<Rightarrow> bool" where
  "castable (Some (Num NaN)) = False"
| "castable _ = True"

definition default :: "'a \<Rightarrow> 'a option \<Rightarrow> 'a" where
  "default d x = (case x of None \<Rightarrow> d | Some v \<Rightarrow> v)"

definition createProposal_api ::
  "User \<Rightarrow> ProposalBody \<Rightarrow> Backend \<Rightarrow> Backend \<times> (api_error + objectId)" where
  "createProposal_api u body s =
     (let t = map_option trim (b_title body) in
      if \<not> (required t \<and> maxlength 100 t \<and>
             required (b_description body) \<and> maxlength 5000 (b_description body) \<and>
             required (b_category body) \<and> enum proposal_categories (b_category body) \<and>
             enum proposal_statuses (b_status body) \<and>
             castable (b_yes body) \<and> castable (b_no body) \<and> castable (b_abstain body))
      then (s, Inl ValidationError)
      else
        let doc = \<lparr>p_title = default [] t,
                   p_description = default [] (b_description body),
                   category = default [] (b_category body),
                   author = u_id u,
                   p_status = default ''submitted'' (b_status body),
                   voteCount = \<lparr>yes = default (Num (Finite 0)) (b_yes body),
                                no = default (Num (Finite 0)) (b_no body),
                                abstain = default (Num (Finite 0)) (b_abstain body)\<rparr>,
                   votingDeadline = b_votingDeadline body\<rparr>
        in (s\<lparr>proposalDocs := (proposalDocs s)(nextId s \<mapsto> doc), nextId := nextId s + 1\<rparr>,
            Inr (nextId s)))"

subsection \<open>controllers/votes.js\<close>

text \<open>
  The request body of the two vote routes. \<open>addVote\<close> overwrites \<open>proposal\<close> and
  \<open>user\<close> before it creates the vote; \<open>updateVote\<close> hands the body to
  \<open>Vote.findByIdAndUpdate\<close> as it is, so there they are set like any other path.
\<close>

record VoteBody =
  vb_vote :: "string option"
  vb_reason :: "string option"
  vb_proposal :: "objectId option"
  vb_user :: "objectId option"

text \<open>
  \<open>voteCount[key] += d\<close>, with \<open>d\<close> either 1 or -1. The schema has the three counters
  only: with any other key (the text \<open>undefined\<close> when the body has no \<open>vote\<close>) the
  assignment makes a property the schema does not know, and the three counters stay as
  they are.
\<close>

definition bump :: "string option \<Rightarrow> rat \<Rightarrow> VoteCount \<Rightarrow> VoteCount" where
  "bump key d vc =
     (if key = Some ''yes'' then vc\<lparr>yes := Num (js_plus (to_number (yes vc)) (Finite d))\<rparr>
      else if key = Some ''no'' then vc\<lparr>no := Num (js_plus (to_number (no vc)) (Finite d))\<rparr>
      else if key = Some ''abstain''
      then vc\<lparr>abstain := Num (js_plus (to_number (abstain vc)) (Finite d))\<rparr>
      else vc)"

definition addVote ::
  "User \<Rightarrow> objectId \<Rightarrow> VoteBody \<Rightarrow> Backend \<Rightarrow> Backend \<times> (api_error + VoteDoc)" where
  "addVote u propId body s =
     (case proposalDocs s propId of
        None \<Rightarrow> (s, Inl NoProposal)
      | Some proposal \<Rightarrow>
          if p_status proposal \<noteq> ''voting'' then (s, Inl NotOpenForVoting)
          else
            (case find (\<lambda>v. v_user v = u_id u \<and> v_proposal v = propId) (voteDocs s) of
               Some existingVote \<Rightarrow> (s, Inl AlreadyVoted)
             | None \<Rightarrow>
                 (case vb_vote body of
                    None \<Rightarrow> (s, Inl ValidationError)
                  | Some choice \<Rightarrow>
                      if \<not> (choice \<in> set vote_choices \<and> maxlength 500 (vb_reason body))
                      then (s, Inl ValidationError)
                      else
                        let v = \<lparr>v_id = nextId s, v_proposal = propId, v_user = u_id u,
                                 vote = choice, reason = vb_reason body\<rparr>;
                            s1 = s\<lparr>voteDocs := voteDocs s @ [v], nextId := nextId s + 1\<rparr>;
                            proposal' = proposal\<lparr>voteCount :=
                                          bump (vb_vote body) 1 (voteCount proposal)\<rparr>
                        in (s1\<lparr>proposalDocs := (proposalDocs s1)(propId \<mapsto> proposal')\<rparr>,
                            Inr v))))"

record VoteSummary =
  s_yes :: counter
  s_no :: counter
  s_abstain :: counter
  s_total :: number

definition getVotes :: "objectId \<Rightarrow> Backend \<Rightarrow> api_error + VoteSummary" where
  "getVotes propId s =
     (case proposalDocs s propId of
        None \<Rightarrow> Inl NoProposal
      | Some proposal \<Rightarrow>
          Inr \<lparr>s_yes = yes (voteCount proposal), s_no = no (voteCount proposal),
               s_abstain = abstain (voteCount proposal),
               s_total = js_plus (js_plus (to_number (yes (voteCount proposal)))
                                           (to_number (no (voteCount proposal))))
                           (to_number (abstain (voteCount proposal)))\<rparr>)"

definition getUserVote :: "User \<Rightarrow> objectId \<Rightarrow> Backend \<Rightarrow> VoteDoc option" where
  "getUserVote u propId s =
     find (\<lambda>v. v_user v = u_id u \<and> v_proposal v = propId) (voteDocs s)"

text \<open>\<open>Vote.findByIdAndUpdate(id, body)\<close>: the first document with the id takes the
  fields the body has, \<open>proposal\<close> and \<open>user\<close> among them.\<close>

definition apply_vote_body :: "VoteBody \<Rightarrow> VoteDoc \<Rightarrow> VoteDoc" where
  "apply_vote_body body v =
     v\<lparr>v_proposal := default (v_proposal v) (vb_proposal body),
       v_user := default (v_user v) (vb_user body),
       vote := default (vote v) (vb_vote body),
       reason := (case vb_reason body of None \<Rightarrow> reason v | Some r \<Rightarrow> Some r)\<rparr>"

fun update_vote_doc :: "objectId \<Rightarrow> VoteBody \<Rightarrow> VoteDoc list \<Rightarrow> VoteDoc list" where
  "update_vote_doc i body [] = []"
| "update_vote_doc i body (v # vs) =
     (if v_id v = i then apply_vote_body body v # vs
      else v # update_vote_doc i body vs)"

text \<open>
  The unique index on \<open>(proposal, user)\<close> of the vote schema: the database refuses an
  update that gives the document the pair of another document.
\<close>

fun other_votes :: "objectId \<Rightarrow> VoteDoc list \<Rightarrow> VoteDoc list" where
  "other_votes i [] = []"
| "other_votes i (v # vs) = (if v_id v = i then vs else v # other_votes i vs)"

definition breaks_unique_index :: "objectId \<Rightarrow> VoteBody \<Rightarrow> VoteDoc list \<Rightarrow> bool" where
  "breaks_unique_index i body vs =
     (case find (\<lambda>v. v_id v = i) vs of
        None \<Rightarrow> False
      | Some v \<Rightarrow>
          let v' = apply_vote_body body v
          in (v_proposal v', v_user v') \<noteq> (v_proposal v, v_user v) \<and>
             (v_proposal v', v_user v')
               \<in> set (map (\<lambda>w. (v_proposal w, v_user w)) (other_votes i vs)))"

definition updateVote ::
  "User \<Rightarrow> objectId \<Rightarrow> VoteBody \<Rightarrow> Backend \<Rightarrow> Backend \<times> (api_error + VoteDoc option)" where
  "updateVote u voteId body s =
     (case find (\<lambda>v. v_id v = voteId) (voteDocs s) of
        None \<Rightarrow> (s, Inl NoVote)
      | Some v \<Rightarrow>
          if v_user v \<noteq> u_id u then (s, Inl NotAuthorizedVote)
          else
            (case proposalDocs s (v_proposal v) of
               None \<Rightarrow> (s, Inl TypeError)
             | Some proposal \<Rightarrow>
                 if p_status proposal \<noteq> ''voting'' then (s, Inl VotingEnded)
                 else
                   let vc = bump (vb_vote body) 1 (bump (Some (vote v)) (- 1) (voteCount proposal));
                       s1 = s\<lparr>proposalDocs :=
                              (proposalDocs s)(v_proposal v \<mapsto> proposal\<lparr>voteCount := vc\<rparr>)\<rparr>
                   in if \<not> (enum vote_choices (vb_vote body) \<and> maxlength 500 (vb_reason body))
                      then (s1, Inl ValidationError)
                      else if breaks_unique_index voteId body (voteDocs s1)
                      then (s1, Inl DuplicateKey)
                      else
                        let s2 = s1\<lparr>voteDocs := update_vote_doc voteId body (voteDocs s1)\<rparr>
                        in (s2, Inr (find (\<lambda>v. v_id v = voteId) (voteDocs s2)))))"

subsection \<open>controllers/officialResponses.js\<close>

record ResponseBody =
  rb_status :: "string option"
  rb_department :: "string option"
  rb_position :: "string option"
  rb_response :: "string option"
  rb_rationale :: "string option"
  rb_nextSteps :: "string option"
  rb_isVerified :: "bool option"
  rb_verificationProof :: "string option"

text \<open>JavaScript's truth value of a string that may be absent.\<close>

fun truthy :: "string option \<Rightarrow> bool" where
  "truthy None = False"
| "truthy (Some s) = (s \<noteq> [])"

text \<open>The status the controllers give the proposal, from the status of the request.\<close>

definition proposal_status_of :: "string option \<Rightarrow> string" where
  "proposal_status_of st =
     (if st = Some ''approved'' then ''approved''
      else if st = Some ''rejected'' then ''rejected''
      else if st = Some ''partially_approved'' then ''partially_approved''
      else ''under_review'')"

text \<open>\<open>Proposal.findByIdAndUpdate(id, {status})\<close>: no document, no change.\<close>

definition set_proposal_status :: "objectId \<Rightarrow> string \<Rightarrow> Backend \<Rightarrow> Backend" where
  "set_proposal_status i st s =
     (case proposalDocs s i of
        None \<Rightarrow> s
      | Some proposal \<Rightarrow> s\<lparr>proposalDocs := (proposalDocs s)(i \<mapsto> proposal\<lparr>p_status := st\<rparr>)\<rparr>)"

text \<open>
  \<open>blockchainService.createVerificationProof\<close> is outside the repository's sources:
  the controllers take it as a parameter, from the verification data (proposal,
  status, respondent, time) to the transaction hash, \<open>None\<close> when it throws.
\<close>

type_synonym proof_service = "objectId \<times> string option \<times> objectId \<times> nat \<Rightarrow> string option"

definition createOfficialResponse ::
  "proof_service \<Rightarrow> User \<Rightarrow> nat \<Rightarrow> objectId \<Rightarrow> ResponseBody \<Rightarrow> Backend
     \<Rightarrow> Backend \<times> (api_error + ResponseDoc)" where
  "createOfficialResponse service u now propId body s =
     (case proposalDocs s propId of
        None \<Rightarrow> (s, Inl NoProposal)
      | Some proposal \<Rightarrow>
          if \<not> isGovernmentOfficial u then (s, Inl NotOfficial)
          else
            (case find (\<lambda>r. o_proposal r = propId) (responseDocs s) of
               Some existingResponse \<Rightarrow> (s, Inl ResponseExists)
             | None \<Rightarrow>
                 (case (if rb_isVerified body = Some True
                        then (case service (propId, rb_status body, u_id u, now) of
                                None \<Rightarrow> Inl VerificationFailed
                              | Some h \<Rightarrow> Inr (Some h))
                        else Inr (rb_verificationProof body)) of
                    Inl e \<Rightarrow> (s, Inl e)
                  | Inr vproof \<Rightarrow>
                      if \<not> (required (rb_department body) \<and> required (rb_position body) \<and>
                             required (rb_status body) \<and>
                             enum response_statuses (rb_status body) \<and>
                             required (rb_response body) \<and> maxlength 10000 (rb_response body) \<and>
                             maxlength 5000 (rb_rationale body) \<and>
                             maxlength 5000 (rb_nextSteps body))
                      then (s, Inl ValidationError)
                      else
                        let doc = \<lparr>o_id = nextId s, o_proposal = propId, respondent = u_id u,
                                   department = default [] (rb_department body),
                                   position = default [] (rb_position body),
                                   o_status = default [] (rb_status body),
                                   response = default [] (rb_response body),
                                   rationale = rb_rationale body,
                                   nextSteps = rb_nextSteps body,
                                   isVerified = default False (rb_isVerified body),
                                   verificationProof = vproof\<rparr>;
                            s1 = s\<lparr>responseDocs := responseDocs s @ [doc],
                                   nextId := nextId s + 1\<rparr>
                        in (set_proposal_status propId (proposal_status_of (rb_status body)) s1,
                            Inr doc))))"

definition getOfficialResponse :: "objectId \<Rightarrow> Backend \<Rightarrow> api_error + ResponseDoc" where
  "getOfficialResponse propId s =
     (case find (\<lambda>r. o_proposal r = propId) (responseDocs s) of
        None \<Rightarrow> Inl NoResponse
      | Some r \<Rightarrow> Inr r)"

text \<open>\<open>OfficialResponse.findByIdAndUpdate(id, body)\<close>: the first document with the id
  takes the fields the body has.\<close>

definition apply_response_body :: "ResponseBody \<Rightarrow> ResponseDoc \<Rightarrow> ResponseDoc" where
  "apply_response_body body r =
     r\<lparr>o_status := default (o_status r) (rb_status body),
       department := default (department r) (rb_department body),
       position := default (position r) (rb_position body),
       response := default (response r) (rb_response body),
       rationale := (case rb_rationale body of None \<Rightarrow> rationale r | Some x \<Rightarrow> Some x),
       nextSteps := (case rb_nextSteps body of None \<Rightarrow> nextSteps r | Some x \<Rightarrow> Some x),
       isVerified := default (isVerified r) (rb_isVerified body),
       verificationProof :=
         (case rb_verificationProof body of None \<Rightarrow> verificationProof r | Some x \<Rightarrow> Some x)\<rparr>"

fun update_response_doc :: "objectId \<Rightarrow> ResponseBody \<Rightarrow> ResponseDoc list \<Rightarrow> ResponseDoc list" where
  "update_response_doc i body [] = []"
| "update_response_doc i body (r # rs) =
     (if o_id r = i then apply_response_body body r # rs
      else r # update_response_doc i body rs)"

text \<open>With \<open>runValidators\<close>, the validators of the paths the update sets are run.\<close>

fun set_required :: "string option \<Rightarrow> bool" where
  "set_required None = True"
| "set_required (Some s) = (s \<noteq> [])"

definition updateOfficialResponse ::
  "proof_service \<Rightarrow> User \<Rightarrow> nat \<Rightarrow> objectId \<Rightarrow> ResponseBody \<Rightarrow> Backend
     \<Rightarrow> Backend \<times> (api_error + ResponseDoc)" where
  "updateOfficialResponse service u now respId body s =
     (case find (\<lambda>r. o_id r = respId) (responseDocs s) of
        None \<Rightarrow> (s, Inl NoResponse)
      | Some resp \<Rightarrow>
          if respondent resp \<noteq> u_id u \<and> \<not> isAdmin u then (s, Inl NotAuthorizedResponse)
          else
            (case (if truthy (rb_status body) \<and> rb_status body \<noteq> Some (o_status resp) \<and>
                      rb_isVerified body = Some True
                   then (case service (o_proposal resp, rb_status body, u_id u, now) of
                           None \<Rightarrow> Inl VerificationFailed
                         | Some h \<Rightarrow> Inr (body\<lparr>rb_verificationProof := Some h\<rparr>))
                   else Inr body) of
               Inl e \<Rightarrow> (s, Inl e)
             | Inr body' \<Rightarrow>
                 if \<not> (set_required (rb_department body') \<and> set_required (rb_position body') \<and>
                        set_required (rb_status body') \<and>
                        enum response_statuses (rb_status body') \<and>
                        set_required (rb_response body') \<and>
                        maxlength 10000 (rb_response body') \<and>
                        maxlength 5000 (rb_rationale body') \<and>
                        maxlength 5000 (rb_nextSteps body'))
                 then (s, Inl ValidationError)
                 else
                   let s1 = s\<lparr>responseDocs := update_response_doc respId body' (responseDocs s)\<rparr>
                   in (case find (\<lambda>r. o_id r = respId) (responseDocs s1) of
                         None \<Rightarrow> (s1, Inl TypeError)
                       | Some resp' \<Rightarrow>
                           (if truthy (rb_status body') \<and> rb_status body' \<noteq> Some (o_status resp')
                            then set_proposal_status (o_proposal resp')
                                   (proposal_status_of (rb_status body')) s1
                            else s1,
                            Inr resp'))))"

subsection \<open>Requests\<close>

text \<open>
  The routes that change the database, each with \<open>req.user\<close>, the parameters of the
  path, the body and, where the controller reads the clock, the time. A run keeps the
  database each controller leaves behind, whatever the response was.
\<close>

datatype request =
    POST_proposal User ProposalBody
  | POST_vote User objectId VoteBody
  | PUT_vote User objectId VoteBody
  | POST_official_response User nat objectId ResponseBody
  | PUT_official_response User nat objectId ResponseBody

fun api_step :: "proof_service \<Rightarrow> request \<Rightarrow> Backend \<Rightarrow> Backend" where
  "api_step service (POST_proposal u body) s = fst (createProposal_api u body s)"
| "api_step service (POST_vote u i body) s = fst (addVote u i body s)"
| "api_step service (PUT_vote u i body) s = fst (updateVote u i body s)"
| "api_step service (POST_official_response u now i body) s =
     fst (createOfficialResponse service u now i body s)"
| "api_step service (PUT_official_response u now i body) s =
     fst (updateOfficialResponse service u now i body s)"

definition api_run :: "proof_service \<Rightarrow> request list \<Rightarrow> Backend \<Rightarrow> Backend" where
  "api_run service reqs s = fold (api_step service) reqs s"

section \<open>Vocabulary of the properties\<close>

definition batch_of :: "TrailRecord list \<Rightarrow> AuditBatch" where
  "batch_of rs = \<lparr>ids = map rid rs, timestamps = map rtimestamp rs, actors = map actor rs,
     actionTypes = map actionType rs, proposalIds = map rproposalId rs\<rparr>"

definition trail_example :: Trail where
  "trail_example =
     trail_run [(1, 0, SetGovernanceContract 7), (7, 10, RecordAudit 3 11 0 0 0),
                (7, 11, RecordAudit 4 12 1 0 0), (7, 12, RecordAudit 3 13 1 5 6)]
       (trail_constructor 1)"

definition trail_inv :: "Trail \<Rightarrow> bool" where
  "trail_inv s =
     (map rid (auditRecords s) = [0..<length (auditRecords s)] \<and> proposalAuditRecords s 0 = [])"

fun is_update :: "gov_call \<Rightarrow> bool" where
  "is_update (UpdateProposalStatus p st d) = True"
| "is_update _ = False"

definition gov_voted :: Governance where
  "gov_voted =
     gov_run [(1, 0, VerifyVoter 2), (1, 0, VerifyVoter 3), (1, 0, VerifyVoter 4),
              (2, 100, CreateProposal ''P1'' ''d'' ''h''),
              (2, 110, CastVote 1 True), (3, 120, CastVote 1 True), (4, 130, CastVote 1 False)]
       (constructor 9 1)"

definition advances :: "ProposalStatus \<Rightarrow> ProposalStatus \<Rightarrow> bool" where
  "advances a b = (b = a \<or> (a = Active \<and> (b = Passed \<or> b = Rejected)))"

definition gov_rejected :: Governance where
  "gov_rejected =
     gov_run [(1, 0, VerifyVoter 2), (2, 100, CreateProposal ''P1'' ''d'' ''h''),
              (2, 110, CastVote 1 False), (5, 604900, CheckProposalStatus 1)]
       (constructor 9 1)"

definition vote_applied :: "address \<Rightarrow> nat \<Rightarrow> nat \<Rightarrow> bool \<Rightarrow> Governance \<Rightarrow> Governance" where
  "vote_applied sender now p support s =
     recordAudit now sender p (if support then ''VOTE_YES'' else ''VOTE_NO'')
       (s\<lparr>proposals := (proposals s)
            (p := (if support
                   then (proposals s p)\<lparr>hasVoted := (hasVoted (proposals s p))(sender := True),
                                          yesVotes := yesVotes (proposals s p) + 1\<rparr>
                   else (proposals s p)\<lparr>hasVoted := (hasVoted (proposals s p))(sender := True),
                                          noVotes := noVotes (proposals s p) + 1\<rparr>))\<rparr>)"

text \<open>Example users and requests.\<close>

definition citizen :: "objectId \<Rightarrow> User" where
  "citizen i = \<lparr>u_id = i, isGovernmentOfficial = False, isAdmin = False\<rparr>"

definition official :: "objectId \<Rightarrow> User" where
  "official i = \<lparr>u_id = i, isGovernmentOfficial = True, isAdmin = False\<rparr>"

definition proposal_body :: "string option \<Rightarrow> ProposalBody" where
  "proposal_body st =
     \<lparr>b_title = Some ''P1'', b_description = Some ''Plant trees'',
      b_category = Some ''Environment'', b_status = st, b_yes = None, b_no = None,
      b_abstain = None, b_votingDeadline = Some 100\<rparr>"

definition ballot :: "string \<Rightarrow> VoteBody" where
  "ballot c = \<lparr>vb_vote = Some c, vb_reason = None, vb_proposal = None, vb_user = None\<rparr>"

definition three_votes :: "request list" where
  "three_votes =
     [POST_vote (citizen 11) 0 (ballot ''yes''), POST_vote (citizen 12) 0 (ballot ''yes''),
      POST_vote (citizen 13) 0 (ballot ''no'')]"

definition no_service :: proof_service where
  "no_service = (\<lambda>_. None)"

definition backend_voted :: Backend where
  "backend_voted =
     api_run no_service (POST_proposal (citizen 10) (proposal_body (Some ''voting'')) # three_votes)
       empty_Backend"

definition backend_submitted :: Backend where
  "backend_submitted =
     api_run no_service (POST_proposal (citizen 10) (proposal_body None) # three_votes)
       empty_Backend"

definition response_body :: "string \<Rightarrow> ResponseBody" where
  "response_body st =
     \<lparr>rb_status = Some st, rb_department = Some ''Parks'', rb_position = Some ''Director'',
      rb_response = Some ''We will look into it'', rb_rationale = None, rb_nextSteps = None,
      rb_isVerified = None, rb_verificationProof = None\<rparr>"

definition backend_open :: Backend where
  "backend_open =
     api_run no_service [POST_proposal (citizen 10) (proposal_body (Some ''voting''))]
       empty_Backend"

definition backend_answered :: Backend where
  "backend_answered =
     api_run no_service
       [POST_proposal (citizen 10) (proposal_body None),
        POST_official_response (official 20) 50 0 (response_body ''approved'')]
       empty_Backend"

text \<open>A vote is cast and then updated with a body that has a reason and no choice.\<close>

definition reason_only :: VoteBody where
  "reason_only =
     \<lparr>vb_vote = None, vb_reason = Some ''on reflection'', vb_proposal = None, vb_user = None\<rparr>"

definition backend_revised :: Backend where
  "backend_revised =
     api_run no_service
       [POST_proposal (citizen 10) (proposal_body (Some ''voting'')),
        POST_vote (citizen 11) 0 (ballot ''yes''),
        PUT_vote (citizen 11) 1 reason_only]
       empty_Backend"


section \<open>Properties of JavaScript numbers\<close>

lemma powi_strict_mono: "k < l \<Longrightarrow> (2::rat) powi k < 2 powi l"
  by (rule power_int_strict_increasing) simp_all

lemma powi_le_imp_le: "(2::rat) powi k \<le> 2 powi l \<Longrightarrow> k \<le> l"
  using powi_strict_mono [of l k] by (cases "k \<le> l") auto

lemma floor_log2_bounds:
  assumes "0 < a"
  shows "2 powi (floor_log2 a) \<le> a \<and> a < 2 powi (floor_log2 a + 1)"
proof -
  obtain p q where pq: "quotient_of a = (p, q)" by (cases "quotient_of a")
  then have q: "0 < q" and a: "a = of_int p / of_int q"
    using quotient_of_denom_pos quotient_of_div by auto
  then have p: "0 < p" using assms by (simp add: zero_less_divide_iff)
  define k where "k = bitlen p - bitlen q"
  have bp: "2 ^ nat (bitlen p - 1) \<le> p" "p < 2 ^ nat (bitlen p)"
    using bitlen_bounds [OF p] by auto
  have bq: "2 ^ nat (bitlen q - 1) \<le> q" "q < 2 ^ nat (bitlen q)"
    using bitlen_bounds [OF q] by auto
  have lp: "1 \<le> bitlen p" using p by (simp add: bitlen_alt_def)
  have lq: "1 \<le> bitlen q" using q by (simp add: bitlen_alt_def)
  have rp: "(2::rat) powi (bitlen p - 1) \<le> of_int p" "of_int p < (2::rat) powi (bitlen p)"
  proof -
    have "(of_int (2 ^ nat (bitlen p - 1)) :: rat) \<le> of_int p"
      using bp(1) by (simp only: of_int_le_iff)
    then show "(2::rat) powi (bitlen p - 1) \<le> of_int p"
      using lp by (simp add: power_int_def)
    have "(of_int p :: rat) < of_int (2 ^ nat (bitlen p))"
      using bp(2) by (simp only: of_int_less_iff)
    then show "of_int p < (2::rat) powi (bitlen p)"
      using lp by (simp add: power_int_def)
  qed
  have rq: "(2::rat) powi (bitlen q - 1) \<le> of_int q" "of_int q < (2::rat) powi (bitlen q)"
  proof -
    have "(of_int (2 ^ nat (bitlen q - 1)) :: rat) \<le> of_int q"
      using bq(1) by (simp only: of_int_le_iff)
    then show "(2::rat) powi (bitlen q - 1) \<le> of_int q"
      using lq by (simp add: power_int_def)
    have "(of_int q :: rat) < of_int (2 ^ nat (bitlen q))"
      using bq(2) by (simp only: of_int_less_iff)
    then show "of_int q < (2::rat) powi (bitlen q)"
      using lq by (simp add: power_int_def)
  qed
  have qpos: "(0::rat) < of_int q" using q by simp
  have low: "(2::rat) powi (k - 1) < a"
  proof -
    have "(2::rat) powi (k - 1) * of_int q < 2 powi (k - 1) * 2 powi (bitlen q)"
      using rq(2) by (simp add: mult_strict_left_mono)
    also have "\<dots> = 2 powi (bitlen p - 1)"
      by (simp add: k_def power_int_add [symmetric])
    also have "\<dots> \<le> of_int p" by (rule rp(1))
    finally show ?thesis using qpos by (simp add: a pos_less_divide_eq)
  qed
  have high: "a < (2::rat) powi (k + 1)"
  proof -
    have "of_int p < (2::rat) powi (bitlen p)" by (rule rp(2))
    also have "\<dots> = 2 powi (k + 1) * 2 powi (bitlen q - 1)"
      by (simp add: k_def power_int_add [symmetric])
    also have "\<dots> \<le> 2 powi (k + 1) * of_int q"
      using rq(1) by (simp add: mult_left_mono)
    finally show ?thesis using qpos by (simp add: a pos_divide_less_eq)
  qed
  have fl: "floor_log2 a = (if 2 powi k \<le> a then k else k - 1)"
    by (simp add: floor_log2_def pq k_def Let_def)
  show ?thesis
  proof (cases "2 powi k \<le> a")
    case True
    then show ?thesis using fl high by simp
  next
    case False
    then show ?thesis using fl low by simp
  qed
qed

lemma powi_mono: "k \<le> l \<Longrightarrow> (2::rat) powi k \<le> 2 powi l"
  by (rule power_int_increasing) simp_all

lemma powi_less_imp_less: "(2::rat) powi k < 2 powi l \<Longrightarrow> k < l"
  using powi_mono [of l k] by (cases "k < l") auto

lemma floor_log2_unique:
  assumes "2 powi k \<le> a" and "a < 2 powi (k + 1)"
  shows "floor_log2 a = k"
proof -
  have "(0::rat) < 2 powi k" by simp
  with assms(1) have "0 < a" by linarith
  then have b: "2 powi (floor_log2 a) \<le> a" "a < 2 powi (floor_log2 a + 1)"
    using floor_log2_bounds by auto
  have "(2::rat) powi k < 2 powi (floor_log2 a + 1)" using assms(1) b(2) by simp
  then have 1: "k < floor_log2 a + 1" by (rule powi_less_imp_less)
  have "(2::rat) powi (floor_log2 a) < 2 powi (k + 1)" using assms(2) b(1) by simp
  then have 2: "floor_log2 a < k + 1" by (rule powi_less_imp_less)
  from 1 2 show ?thesis by simp
qed

lemma round_half_even_of_int [simp]: "round_half_even (of_int n) = n"
  by (simp add: round_half_even_def)

lemma round_double_exact:
  assumes "x \<in> \<int>" and "\<bar>x\<bar> \<le> 2 ^ 53"
  shows "round_double x = Finite x"
proof (cases "x = 0")
  case True
  then show ?thesis by (simp add: round_double_def)
next
  case False
  obtain n where n: "x = of_int n" using assms(1) by (auto elim: Ints_cases)
  define e where "e = max (floor_log2 \<bar>x\<bar> - 52) (- 1074)"
  have pos: "0 < \<bar>x\<bar>" using False by simp
  have "(2::rat) powi (floor_log2 \<bar>x\<bar>) \<le> 2 ^ 53"
    using floor_log2_bounds [OF pos] assms(2) by simp
  also have "(2::rat) ^ 53 = 2 powi 53" by simp
  finally have "floor_log2 \<bar>x\<bar> \<le> 53" by (rule powi_le_imp_le)
  then have e1: "e \<le> 1" by (simp add: e_def)
  have int: "\<exists>m. x / 2 powi e = of_int m"
  proof (cases "e \<le> 0")
    case True
    then have "x / 2 powi e = of_int (n * 2 ^ nat (- e))"
      by (simp add: n power_int_def field_simps)
    then show ?thesis ..
  next
    case False
    then have e: "e = 1" using e1 by simp
    then have "floor_log2 \<bar>x\<bar> = 53" by (simp add: e_def max_def split: if_splits)
    then have "(2::rat) powi 53 \<le> \<bar>x\<bar>" using floor_log2_bounds [OF pos] by simp
    then have "\<bar>x\<bar> = 2 ^ 53" using assms(2) by simp
    then have "x = of_int (2 ^ 53) \<or> x = of_int (- (2 ^ 53))" by (auto simp: abs_if split: if_splits)
    then have "x / 2 powi e = of_int (2 ^ 52) \<or> x / 2 powi e = of_int (- (2 ^ 52))"
      unfolding e by auto
    then have "\<exists>m. x / 2 powi e = of_int m" by blast
    then show ?thesis .
  qed
  then obtain m where m: "x / 2 powi e = of_int m" ..
  have "of_int (round_half_even (x / 2 powi e)) = x / 2 powi e"
    by (simp add: m)
  then have y: "of_int (round_half_even (x / 2 powi e)) * 2 powi e = x"
    by simp
  have "\<bar>x\<bar> < 2 powi 1024"
    using assms(2) by (rule le_less_trans) simp
  then have "\<not> 2 powi 1024 \<le> x" "\<not> x \<le> - (2 powi 1024)" by auto
  then show ?thesis
    using False y unfolding round_double_def e_def [symmetric] by (simp add: Let_def)
qed

lemma js_plus_exact:
  "x \<in> \<int> \<Longrightarrow> y \<in> \<int> \<Longrightarrow> \<bar>x + y\<bar> \<le> 2 ^ 53 \<Longrightarrow>
   js_plus (Finite x) (Finite y) = Finite (x + y)"
  by (simp add: round_double_exact)

lemma js_plus_saturates:
  "js_plus (Finite 9007199254740992) (Finite 1) = Finite 9007199254740992"
proof -
  have fl: "floor_log2 9007199254740993 = 53"
    by (rule floor_log2_unique) simp_all
  have f: "\<lfloor>(9007199254740993::rat) / 2\<rfloor> = 4503599627370496"
    by (rule floor_unique) simp_all
  have half: "round_half_even (9007199254740993 / 2) = 4503599627370496"
    unfolding round_half_even_def f Let_def by simp
  show ?thesis
    by (simp add: round_double_def fl half Let_def)
qed

section \<open>Properties of the governance contract\<close>

lemma gov_voted_eq:
  "gov_voted =
    \<lparr>this = 9, admin = 1, proposalCount = 1,
     proposals = (\<lambda>_. zero_Proposal)
       (1 := \<lparr>pid = 1, title = ''P1'', description = ''d'', ipfsDocHash = ''h'',
              creationTime = 100, votingEndTime = 604900, proposer = 2, yesVotes = 2,
              noVotes = 1, status = Active, implementationDetails = [],
              hasVoted = (\<lambda>_. False)(2 := True, 3 := True, 4 := True)\<rparr>),
     verifiedVoters = (\<lambda>_. False)(2 := True, 3 := True, 4 := True),
     auditTrail =
       [\<lparr>user = 2, proposalId = 0, action = ''VOTER_VERIFIED'', timestamp = 0\<rparr>,
        \<lparr>user = 3, proposalId = 0, action = ''VOTER_VERIFIED'', timestamp = 0\<rparr>,
        \<lparr>user = 4, proposalId = 0, action = ''VOTER_VERIFIED'', timestamp = 0\<rparr>,
        \<lparr>user = 2, proposalId = 1, action = ''PROPOSAL_CREATED'', timestamp = 100\<rparr>,
        \<lparr>user = 2, proposalId = 1, action = ''VOTE_YES'', timestamp = 110\<rparr>,
        \<lparr>user = 3, proposalId = 1, action = ''VOTE_YES'', timestamp = 120\<rparr>,
        \<lparr>user = 4, proposalId = 1, action = ''VOTE_NO'', timestamp = 130\<rparr>]\<rparr>"
  apply (simp add: gov_voted_def gov_run_def constructor_def verifyVoter_def createProposal_def
      castVote_def checkProposalStatus_def recordAudit_def zero_Proposal_def
      UINT256_LIMIT_def VOTING_PERIOD_def Let_def)
  apply (simp add: numeral_2_eq_2)
  done

lemma recordAudit_fields [simp]:
  "this (recordAudit now u p a s) = this s"
  "admin (recordAudit now u p a s) = admin s"
  "proposalCount (recordAudit now u p a s) = proposalCount s"
  "proposals (recordAudit now u p a s) = proposals s"
  "verifiedVoters (recordAudit now u p a s) = verifiedVoters s"
  "auditTrail (recordAudit now u p a s) = auditTrail s @ [\<lparr>user = u, proposalId = p, action = a, timestamp = now\<rparr>]"
  by (simp_all add: recordAudit_def)

text \<open>
  Claim C4. \<open>checkProposalStatus\<close> changes nothing unless the proposal is Active and
  the block time has reached its voting end. Then the status becomes Passed when there
  are more yes than no votes and Rejected otherwise (so a tie is Rejected), nothing
  else of any proposal changes, and exactly one record is appended to the audit trail,
  with the action "STATUS_UPDATED_AUTO", the contract itself as user and the proposal's
  id.
\<close>

theorem checkProposalStatus_closes_voting:
  "(let s' = checkProposalStatus now p s in
    if status (proposals s p) = Active \<and> votingEndTime (proposals s p) \<le> now
    then status (proposals s' p)
           = (if noVotes (proposals s p) < yesVotes (proposals s p) then Passed else Rejected) \<and>
         proposals s' = (proposals s)(p := (proposals s p)\<lparr>status := status (proposals s' p)\<rparr>) \<and>
         auditTrail s' = auditTrail s @
           [\<lparr>user = this s, proposalId = p, action = ''STATUS_UPDATED_AUTO'', timestamp = now\<rparr>] \<and>
         proposalCount s' = proposalCount s \<and> verifiedVoters s' = verifiedVoters s \<and>
         admin s' = admin s \<and> this s' = this s
    else s' = s)"
  by (simp add: checkProposalStatus_def Let_def)

text \<open>
  The example of the specification: before the deadline the state stays as it is; at
  the deadline, with two yes votes and one no vote, the proposal is Passed and one
  record is appended.
\<close>

theorem checkProposalStatus_example:
  "checkProposalStatus 200 1 gov_voted = gov_voted \<and>
   status (proposals (checkProposalStatus 604900 1 gov_voted) 1) = Passed \<and>
   auditTrail (checkProposalStatus 604900 1 gov_voted) = auditTrail gov_voted @
     [\<lparr>user = 9, proposalId = 1, action = ''STATUS_UPDATED_AUTO'', timestamp = 604900\<rparr>]"
  using checkProposalStatus_closes_voting [of 200 1 gov_voted]
    checkProposalStatus_closes_voting [of 604900 1 gov_voted]
  by (simp add: gov_voted_eq Let_def)

lemma gov_rejected_eq:
  "gov_rejected =
    \<lparr>this = 9, admin = 1, proposalCount = 1,
     proposals = (\<lambda>_. zero_Proposal)
       (1 := \<lparr>pid = 1, title = ''P1'', description = ''d'', ipfsDocHash = ''h'',
              creationTime = 100, votingEndTime = 604900, proposer = 2, yesVotes = 0,
              noVotes = 1, status = Rejected, implementationDetails = [],
              hasVoted = (\<lambda>_. False)(2 := True)\<rparr>),
     verifiedVoters = (\<lambda>_. False)(2 := True),
     auditTrail =
       [\<lparr>user = 2, proposalId = 0, action = ''VOTER_VERIFIED'', timestamp = 0\<rparr>,
        \<lparr>user = 2, proposalId = 1, action = ''PROPOSAL_CREATED'', timestamp = 100\<rparr>,
        \<lparr>user = 2, proposalId = 1, action = ''VOTE_NO'', timestamp = 110\<rparr>,
        \<lparr>user = 9, proposalId = 1, action = ''STATUS_UPDATED_AUTO'', timestamp = 604900\<rparr>]\<rparr>"
  by (simp add: gov_rejected_def gov_run_def constructor_def verifyVoter_def createProposal_def
      castVote_def checkProposalStatus_def recordAudit_def zero_Proposal_def
      UINT256_LIMIT_def VOTING_PERIOD_def Let_def)

lemma advances_refl [simp]: "advances a a"
  by (simp add: advances_def)

lemma advances_trans: "advances a b \<Longrightarrow> advances b c \<Longrightarrow> advances a c"
  by (auto simp: advances_def)

lemma advances_rank: "advances a b \<Longrightarrow> status_rank a \<le> status_rank b"
  by (auto simp: advances_def)

lemma checkProposalStatus_advances:
  "advances (status (proposals s q)) (status (proposals (checkProposalStatus now p s) q))"
  by (simp add: checkProposalStatus_def Let_def advances_def)

lemma checkProposalStatus_count [simp]:
  "proposalCount (checkProposalStatus now p s) = proposalCount s"
  by (simp add: checkProposalStatus_def Let_def)

lemma castVote_result:
  "castVote sender now p support s =
     (if \<not> verifiedVoters s sender then Inl OnlyVerifiedVoter
      else if \<not> (p \<le> proposalCount s \<and> p > 0) then Inl InvalidProposalID
      else if \<not> now < votingEndTime (proposals s p) then Inl VotingPeriodEnded
      else if status (proposals s p) \<noteq> Active then Inl ProposalNotActive
      else if hasVoted (proposals s p) sender then Inl AlreadyVotedOnProposal
      else if \<not> (if support then yesVotes (proposals s p) else noVotes (proposals s p)) + 1
                  < UINT256_LIMIT then Inl PanicOverflow
      else Inr (checkProposalStatus now p (vote_applied sender now p support s)))"
  by (simp add: castVote_def vote_applied_def Let_def)

lemma vote_applied_fields [simp]:
  "proposalCount (vote_applied sender now p support s) = proposalCount s"
  "status (proposals (vote_applied sender now p support s) q) = status (proposals s q)"
  "votingEndTime (proposals (vote_applied sender now p support s) q) = votingEndTime (proposals s q)"
  by (simp_all add: vote_applied_def)

lemma gov_step_advances:
  assumes "\<not> is_update c" and "gov_step sender now c s = Inr s'" and "0 < q" and "q \<le> proposalCount s"
  shows "advances (status (proposals s q)) (status (proposals s' q)) \<and> proposalCount s \<le> proposalCount s'"
proof (cases c)
  case (VerifyVoter v)
  then show ?thesis using assms by (auto simp: verifyVoter_def split: if_splits)
next
  case (UpdateProposalStatus p st d)
  then show ?thesis using assms by simp
next
  case (CreateProposal t d h)
  then show ?thesis using assms by (auto simp: createProposal_def Let_def split: if_splits)
next
  case (CastVote p b)
  then have "s' = checkProposalStatus now p (vote_applied sender now p b s)"
    using assms by (auto simp: castVote_result split: if_splits)
  then show ?thesis
    using checkProposalStatus_advances [of "vote_applied sender now p b s" q now p] by simp
next
  case (CheckProposalStatus p)
  then show ?thesis using assms checkProposalStatus_advances [of s q now p] by auto
qed

lemma gov_tx_advances:
  assumes "\<not> is_update (snd (snd tx))" and "0 < q" and "q \<le> proposalCount s"
  shows "advances (status (proposals s q)) (status (proposals (gov_tx tx s) q)) \<and>
         proposalCount s \<le> proposalCount (gov_tx tx s)"
proof (cases tx)
  case (fields sender now c)
  show ?thesis
  proof (cases "gov_step sender now c s")
    case (Inl e)
    then show ?thesis using fields by simp
  next
    case (Inr s')
    then show ?thesis using fields assms gov_step_advances [of c sender now s s' q] by simp
  qed
qed

lemma gov_run_advances:
  "list_all (\<lambda>tx. \<not> is_update (snd (snd tx))) txs \<Longrightarrow> 0 < q \<Longrightarrow> q \<le> proposalCount s \<Longrightarrow>
   advances (status (proposals s q)) (status (proposals (gov_run txs s) q))"
  unfolding gov_run_def
proof (induction txs arbitrary: s)
  case Nil
  then show ?case by simp
next
  case (Cons tx txs)
  have step: "advances (status (proposals s q)) (status (proposals (gov_tx tx s) q))"
    and cnt: "q \<le> proposalCount (gov_tx tx s)"
    using gov_tx_advances [of tx q s] Cons.prems by auto
  have "advances (status (proposals (gov_tx tx s) q))
          (status (proposals (fold gov_tx txs (gov_tx tx s)) q))"
    using Cons.IH [of "gov_tx tx s"] Cons.prems cnt by simp
  with step show ?case by (auto intro: advances_trans)
qed

lemma updateProposalStatus_sets:
  "sender = admin s \<Longrightarrow> 0 < p \<Longrightarrow> p \<le> proposalCount s \<Longrightarrow>
   (case updateProposalStatus sender now p st d s of
      Inl e \<Rightarrow> False
    | Inr s' \<Rightarrow> status (proposals s' p) = st)"
  by (simp add: updateProposalStatus_def Let_def)

text \<open>
  Claim C1, as the code has it. Under any transactions other than
  \<open>updateProposalStatus\<close> (voter verification, proposal creation, votes, status
  checks, by anyone at any time) the status of an existing proposal never regresses: it
  stays, or moves from Active to Passed or Rejected. \<open>updateProposalStatus\<close>,
  called by the admin for an existing proposal, succeeds and sets whatever status it is
  given: the contract has no check of the transition.
\<close>

theorem status_advances_unless_admin_update:
  assumes "0 < p" and "p \<le> proposalCount s"
  shows "(list_all (\<lambda>tx. \<not> is_update (snd (snd tx))) txs \<longrightarrow>
            advances (status (proposals s p)) (status (proposals (gov_run txs s) p)) \<and>
            status_rank (status (proposals s p))
              \<le> status_rank (status (proposals (gov_run txs s) p))) \<and>
         (sender = admin s \<longrightarrow>
            (case updateProposalStatus sender now p st d s of
               Inl e \<Rightarrow> False
             | Inr s' \<Rightarrow> status (proposals s' p) = st))"
  using assms gov_run_advances [of txs p s] updateProposalStatus_sets [where sender = sender and s = s and p = p and now = now and st = st and d = d]
  by (auto dest: advances_rank)

theorem status_advances_unless_admin_update_witness:
  "0 < (1::nat) \<and> 1 \<le> proposalCount gov_voted \<and>
   list_all (\<lambda>tx. \<not> is_update (snd (snd tx))) [(5, 604900, CheckProposalStatus 1)] \<and>
   status (proposals gov_voted 1) = Active \<and>
   status (proposals (gov_run [(5, 604900, CheckProposalStatus 1)] gov_voted) 1) = Passed \<and>
   advances Active Passed \<and> status_rank Active \<le> status_rank Passed \<and>
   1 = admin gov_voted \<and>
   (case updateProposalStatus 1 700000 1 Implemented ''built'' gov_voted of
      Inl e \<Rightarrow> False
    | Inr s' \<Rightarrow> status (proposals s' 1) = Implemented)"
proof -
  have h1: "0 < (1::nat)" by simp
  have h2: "1 \<le> proposalCount gov_voted" by (simp add: gov_voted_eq)
  show ?thesis
    using status_advances_unless_admin_update [OF h1 h2,
        where txs = "[(5, 604900, CheckProposalStatus 1)]" and sender = 1 and now = 700000
          and st = Implemented and d = "''built''"]
    by (simp add: gov_voted_eq gov_run_def checkProposalStatus_def Let_def recordAudit_def
        advances_def)
qed

text \<open>
  Against C1 as stated: a proposal closed as Rejected at its deadline is Active again
  after the admin's \<open>updateProposalStatus\<close>.
\<close>

theorem status_regresses_by_admin_update:
  "status (proposals gov_rejected 1) = Rejected \<and>
   status (proposals (gov_tx (1, 604950, UpdateProposalStatus 1 Active []) gov_rejected) 1) = Active \<and>
   status_rank (status (proposals (gov_tx (1, 604950, UpdateProposalStatus 1 Active [])
                                     gov_rejected) 1))
     < status_rank (status (proposals gov_rejected 1))"
  by (simp add: gov_rejected_eq updateProposalStatus_def Let_def recordAudit_def)

section \<open>Properties of the audit-trail contract\<close>

subsection \<open>The loop of \<open>getAuditBatch\<close>\<close>

lemma take_Suc_update:
  "i < length xs \<Longrightarrow> take (Suc i) (xs[i := v]) = take i xs @ [v]"
  by (simp add: take_Suc_conv_app_nth)

lemma batch_loop_inv:
  "i \<le> count \<Longrightarrow> start + count \<le> length recs \<Longrightarrow>
   length (ids b) = count \<Longrightarrow> length (timestamps b) = count \<Longrightarrow> length (actors b) = count \<Longrightarrow>
   length (actionTypes b) = count \<Longrightarrow> length (proposalIds b) = count \<Longrightarrow>
   batch_loop recs start count i b =
     Inr \<lparr>ids = take i (ids b) @ map rid (take (count - i) (drop (start + i) recs)),
          timestamps = take i (timestamps b) @ map rtimestamp (take (count - i) (drop (start + i) recs)),
          actors = take i (actors b) @ map actor (take (count - i) (drop (start + i) recs)),
          actionTypes = take i (actionTypes b) @ map actionType (take (count - i) (drop (start + i) recs)),
          proposalIds = take i (proposalIds b) @ map rproposalId (take (count - i) (drop (start + i) recs))\<rparr>"
proof (induction recs start count i b rule: batch_loop.induct)
  case (1 recs start count i b)
  show ?case
  proof (cases "i < count")
    case True
    then have lt: "start + i < length recs" using "1.prems" by simp
    have step: "take (count - i) (drop (start + i) recs)
                = recs ! (start + i) # take (count - Suc i) (drop (start + Suc i) recs)"
      using True lt by (metis Cons_nth_drop_Suc Suc_diff_Suc add_Suc_right take_Suc_Cons)
    let ?r = "recs ! (start + i)"
    let ?b = "b\<lparr>ids := (ids b)[i := rid ?r],
                  timestamps := (timestamps b)[i := rtimestamp ?r],
                  actors := (actors b)[i := actor ?r],
                  actionTypes := (actionTypes b)[i := actionType ?r],
                  proposalIds := (proposalIds b)[i := rproposalId ?r]\<rparr>"
    have "batch_loop recs start count i b = batch_loop recs start count (i + 1) ?b"
      using True lt by (subst batch_loop.simps) (simp add: Let_def)
    also have "\<dots> = Inr \<lparr>ids = take (i+1) (ids ?b) @ map rid (take (count - (i+1)) (drop (start + (i+1)) recs)),
          timestamps = take (i+1) (timestamps ?b) @ map rtimestamp (take (count - (i+1)) (drop (start + (i+1)) recs)),
          actors = take (i+1) (actors ?b) @ map actor (take (count - (i+1)) (drop (start + (i+1)) recs)),
          actionTypes = take (i+1) (actionTypes ?b) @ map actionType (take (count - (i+1)) (drop (start + (i+1)) recs)),
          proposalIds = take (i+1) (proposalIds ?b) @ map rproposalId (take (count - (i+1)) (drop (start + (i+1)) recs))\<rparr>"
      using True lt "1.prems" by (intro "1.IH") simp_all
    also have "\<dots> = Inr \<lparr>ids = take i (ids b) @ map rid (take (count - i) (drop (start + i) recs)),
          timestamps = take i (timestamps b) @ map rtimestamp (take (count - i) (drop (start + i) recs)),
          actors = take i (actors b) @ map actor (take (count - i) (drop (start + i) recs)),
          actionTypes = take i (actionTypes b) @ map actionType (take (count - i) (drop (start + i) recs)),
          proposalIds = take i (proposalIds b) @ map rproposalId (take (count - i) (drop (start + i) recs))\<rparr>"
      using True "1.prems" by (simp add: step take_Suc_update)
    finally show ?thesis .
  next
    case False
    then have "i = count" using "1.prems" by simp
    then show ?thesis using "1.prems" by (subst batch_loop.simps) simp
  qed
qed

lemma trail_example_eq:
  "trail_example =
     \<lparr>trail_admin = 1, governanceContract = 7,
      auditRecords =
        [\<lparr>rid = 0, rtimestamp = 10, actor = 3, actionType = 11, rproposalId = 0,
          ipfsDataHash = 0, metadataHash = 0\<rparr>,
         \<lparr>rid = 1, rtimestamp = 11, actor = 4, actionType = 12, rproposalId = 1,
          ipfsDataHash = 0, metadataHash = 0\<rparr>,
         \<lparr>rid = 2, rtimestamp = 12, actor = 3, actionType = 13, rproposalId = 1,
          ipfsDataHash = 5, metadataHash = 6\<rparr>],
      proposalAuditRecords = (\<lambda>_. [])(1 := [1, 2]),
      userAuditRecords = (\<lambda>_. [])(3 := [0, 2], 4 := [1])\<rparr>"
  by (simp add: trail_example_def trail_run_def trail_constructor_def setGovernanceContract_def
      trail_recordAudit_def Let_def fun_upd_twist numeral_2_eq_2)

text \<open>
  Claim C8, as the code has it. \<open>getAuditBatch\<close> first requires the start index to be
  below the number of records and reverts with "Start index out of bounds" otherwise,
  also when the start index equals the length. With a start index in range, and
  \<open>_startIndex + _count\<close> representable in \<open>uint256\<close>, it returns the five arrays of
  exactly \<open>min count (length - start)\<close> records, those from the start index on, in stored
  order.
\<close>

theorem getAuditBatch_clamped:
  assumes "startIndex + count < UINT256_LIMIT"
  shows "getAuditBatch startIndex count s =
           (if startIndex < length (auditRecords s)
            then Inr (batch_of (take (min count (length (auditRecords s) - startIndex))
                                  (drop startIndex (auditRecords s))))
            else Inl StartIndexOutOfBounds)"
proof (cases "startIndex < length (auditRecords s)")
  case False
  then show ?thesis by (simp add: getAuditBatch_def)
next
  case True
  define n where "n = min count (length (auditRecords s) - startIndex)"
  have n: "(if startIndex + count > length (auditRecords s)
            then length (auditRecords s) - startIndex else count) = n"
    using True by (auto simp: n_def)
  have "getAuditBatch startIndex count s =
          batch_loop (auditRecords s) startIndex n 0
            \<lparr>ids = replicate n 0, timestamps = replicate n 0, actors = replicate n 0,
             actionTypes = replicate n 0, proposalIds = replicate n 0\<rparr>"
    using True assms unfolding getAuditBatch_def n by (simp add: Let_def)
  also have "\<dots> = Inr (batch_of (take n (drop startIndex (auditRecords s))))"
    using True by (subst batch_loop_inv) (simp_all add: n_def batch_of_def)
  finally show ?thesis using True by (simp add: n_def)
qed

theorem getAuditBatch_clamped_witness:
  "(1::nat) + 5 < UINT256_LIMIT \<and>
   getAuditBatch 1 5 trail_example =
     Inr \<lparr>ids = [1, 2], timestamps = [11, 12], actors = [4, 3], actionTypes = [12, 13],
          proposalIds = [1, 1]\<rparr>"
proof -
  have h: "(1::nat) + 5 < UINT256_LIMIT" by (simp add: UINT256_LIMIT_def)
  show ?thesis
    using h getAuditBatch_clamped [OF h, of trail_example]
    by (simp add: trail_example_eq batch_of_def)
qed

text \<open>
  Against C8 as stated ("for every start index"): the log below holds three records;
  a batch from index 3 is not the empty batch, the call reverts.
\<close>

theorem getAuditBatch_start_past_end:
  "getAuditBatch 3 1 trail_example = Inl StartIndexOutOfBounds"
  by (simp add: getAuditBatch_def trail_example_eq)

subsection \<open>Append-only logs\<close>

lemma checkProposalStatus_prefix:
  "prefix (auditTrail s) (auditTrail (checkProposalStatus now p s))"
  by (simp add: checkProposalStatus_def Let_def)

lemma gov_step_prefix:
  "gov_step sender now c s = Inr s' \<Longrightarrow> prefix (auditTrail s) (auditTrail s')"
proof (cases c)
  case (CastVote p b)
  assume "gov_step sender now c s = Inr s'"
  then obtain s2 where s2: "s' = checkProposalStatus now p s2" and "prefix (auditTrail s) (auditTrail s2)"
    using CastVote by (auto simp: castVote_def Let_def split: if_splits)
  then show ?thesis using checkProposalStatus_prefix [of s2 now p] by (auto intro: prefix_order.trans)
qed (auto simp: verifyVoter_def updateProposalStatus_def createProposal_def
       checkProposalStatus_prefix Let_def split: if_splits)

lemma gov_tx_prefix: "prefix (auditTrail s) (auditTrail (gov_tx tx s))"
  by (cases tx) (auto split: sum.splits dest: gov_step_prefix)

lemma gov_run_prefix: "prefix (auditTrail s) (auditTrail (gov_run txs s))"
  unfolding gov_run_def
proof (induction txs arbitrary: s)
  case Nil
  show ?case by simp
next
  case (Cons tx txs)
  have "prefix (auditTrail s) (auditTrail (gov_tx tx s))" by (rule gov_tx_prefix)
  also have "prefix \<dots> (auditTrail (fold gov_tx txs (gov_tx tx s)))" by (rule Cons.IH)
  finally show ?case by simp
qed

lemma trail_recordAudit_result:
  "trail_recordAudit sender now a ty p ipfs meta s =
     (if sender \<noteq> governanceContract s then Inl OnlyGovernance
      else Inr (s\<lparr>auditRecords := auditRecords s @
                   [\<lparr>rid = length (auditRecords s), rtimestamp = now, actor = a, actionType = ty,
                     rproposalId = p, ipfsDataHash = ipfs, metadataHash = meta\<rparr>],
                 proposalAuditRecords :=
                   (if p > 0
                    then (proposalAuditRecords s)
                           (p := proposalAuditRecords s p @ [length (auditRecords s)])
                    else proposalAuditRecords s),
                 userAuditRecords :=
                   (userAuditRecords s)(a := userAuditRecords s a @ [length (auditRecords s)])\<rparr>,
                length (auditRecords s)))"
  by (simp add: trail_recordAudit_def Let_def)

lemma trail_tx_inv: "trail_inv s \<Longrightarrow> trail_inv (trail_tx tx s)"
proof (cases tx)
  case (fields sender now c)
  assume "trail_inv s"
  then show ?thesis unfolding fields
    by (cases c) (auto simp: trail_inv_def setGovernanceContract_def trail_recordAudit_result)
qed

lemma trail_run_inv: "trail_inv s \<Longrightarrow> trail_inv (trail_run txs s)"
  unfolding trail_run_def
  by (induction txs arbitrary: s) (simp_all add: trail_tx_inv)

lemma trail_constructor_inv: "trail_inv (trail_constructor deployer)"
  by (simp add: trail_inv_def trail_constructor_def)

lemma trail_tx_prefix: "prefix (auditRecords s) (auditRecords (trail_tx tx s))"
proof (cases tx)
  case (fields sender now c)
  show ?thesis unfolding fields
    by (cases c) (auto simp: setGovernanceContract_def trail_recordAudit_result)
qed

lemma trail_run_prefix: "prefix (auditRecords s) (auditRecords (trail_run txs s))"
  unfolding trail_run_def
proof (induction txs arbitrary: s)
  case Nil
  show ?case by simp
next
  case (Cons tx txs)
  have "prefix (auditRecords s) (auditRecords (trail_tx tx s))" by (rule trail_tx_prefix)
  also have "prefix \<dots> (auditRecords (fold trail_tx txs (trail_tx tx s)))" by (rule Cons.IH)
  finally show ?case by simp
qed

text \<open>
  Claim C6. \<open>recordAudit\<close> of the audit-trail contract succeeds exactly for the
  governance contract, returns the number of records before the call as the id and
  appends one record carrying that id. In every state reached from the constructor
  the ids of the records are \<open>0, 1, 2, ...\<close> in stored order, hence strictly increasing.
  Whatever transactions run, from any state, the records present before are still there,
  unchanged and in place: the old list is a prefix of the new one. The same holds for
  the audit trail kept inside the governance contract.
\<close>

theorem audit_ids_sequential_append_only:
  "(case trail_recordAudit sender now a ty p ipfs meta s of
      Inl e \<Rightarrow> sender \<noteq> governanceContract s
    | Inr (s', i) \<Rightarrow>
        sender = governanceContract s \<and> i = length (auditRecords s) \<and>
        auditRecords s' = auditRecords s @
          [\<lparr>rid = i, rtimestamp = now, actor = a, actionType = ty, rproposalId = p,
            ipfsDataHash = ipfs, metadataHash = meta\<rparr>]) \<and>
   map rid (auditRecords (trail_run txs (trail_constructor deployer)))
     = [0..<length (auditRecords (trail_run txs (trail_constructor deployer)))] \<and>
   sorted_wrt (<) (map rid (auditRecords (trail_run txs (trail_constructor deployer)))) \<and>
   prefix (auditRecords s) (auditRecords (trail_run txs s)) \<and>
   prefix (auditTrail g) (auditTrail (gov_run gtxs g))"
proof -
  have ids: "map rid (auditRecords (trail_run txs (trail_constructor deployer)))
     = [0..<length (auditRecords (trail_run txs (trail_constructor deployer)))]"
    using trail_run_inv [OF trail_constructor_inv, of txs deployer] by (simp add: trail_inv_def)
  have "sorted_wrt (<) [0..<length (auditRecords (trail_run txs (trail_constructor deployer)))]"
    by (rule sorted_wrt_upt)
  then have srt: "sorted_wrt (<) (map rid (auditRecords (trail_run txs (trail_constructor deployer))))"
    by (simp only: ids)
  have app: "(case trail_recordAudit sender now a ty p ipfs meta s of
      Inl e \<Rightarrow> sender \<noteq> governanceContract s
    | Inr (s', i) \<Rightarrow>
        sender = governanceContract s \<and> i = length (auditRecords s) \<and>
        auditRecords s' = auditRecords s @
          [\<lparr>rid = i, rtimestamp = now, actor = a, actionType = ty, rproposalId = p,
            ipfsDataHash = ipfs, metadataHash = meta\<rparr>])"
    by (simp add: trail_recordAudit_result)
  show ?thesis using app ids srt trail_run_prefix gov_run_prefix by blast
qed

text \<open>
  Claim C9. A record with proposal id 0 is appended to the list of all records and to
  the index of its actor, and the index by proposal is left as it was. In every state
  reached from the constructor \<open>getProposalAudits 0\<close> is the empty list.
\<close>

theorem proposal_zero_never_indexed:
  "(case trail_recordAudit sender now a ty 0 ipfs meta s of
      Inl e \<Rightarrow> sender \<noteq> governanceContract s
    | Inr (s', i) \<Rightarrow>
        auditRecords s' = auditRecords s @
          [\<lparr>rid = i, rtimestamp = now, actor = a, actionType = ty, rproposalId = 0,
            ipfsDataHash = ipfs, metadataHash = meta\<rparr>] \<and>
        userAuditRecords s' = (userAuditRecords s)(a := userAuditRecords s a @ [i]) \<and>
        proposalAuditRecords s' = proposalAuditRecords s) \<and>
   getProposalAudits 0 (trail_run txs (trail_constructor deployer)) = []"
proof -
  have "proposalAuditRecords (trail_run txs (trail_constructor deployer)) 0 = []"
    using trail_run_inv [OF trail_constructor_inv, of txs deployer] by (simp add: trail_inv_def)
  then show ?thesis by (simp add: trail_recordAudit_result getProposalAudits_def)
qed

section \<open>Properties of the REST backend\<close>

subsection \<open>Example states\<close>

lemma backend_voted_eq:
  "backend_voted =
     \<lparr>proposalDocs = [0 \<mapsto> \<lparr>p_title = ''P1'', p_description = ''Plant trees'',
                              category = ''Environment'', author = 10, p_status = ''voting'',
                              voteCount = \<lparr>yes = Num (Finite 2), no = Num (Finite 1), abstain = Num (Finite 0)\<rparr>,
                              votingDeadline = Some 100\<rparr>],
      voteDocs = [\<lparr>v_id = 1, v_proposal = 0, v_user = 11, vote = ''yes'', reason = None\<rparr>,
                  \<lparr>v_id = 2, v_proposal = 0, v_user = 12, vote = ''yes'', reason = None\<rparr>,
                  \<lparr>v_id = 3, v_proposal = 0, v_user = 13, vote = ''no'', reason = None\<rparr>],
      responseDocs = [], nextId = 4\<rparr>"
  by (simp add: backend_voted_def api_run_def three_votes_def empty_Backend_def
      createProposal_api_def addVote_def proposal_body_def ballot_def citizen_def
      trim_def is_space_def proposal_categories_def proposal_statuses_def vote_choices_def
      default_def bump_def round_double_exact Let_def)

lemma backend_submitted_eq:
  "backend_submitted =
     \<lparr>proposalDocs = [0 \<mapsto> \<lparr>p_title = ''P1'', p_description = ''Plant trees'',
                              category = ''Environment'', author = 10, p_status = ''submitted'',
                              voteCount = \<lparr>yes = Num (Finite 0), no = Num (Finite 0), abstain = Num (Finite 0)\<rparr>,
                              votingDeadline = Some 100\<rparr>],
      voteDocs = [], responseDocs = [], nextId = 1\<rparr>"
  by (simp add: backend_submitted_def api_run_def three_votes_def empty_Backend_def
      createProposal_api_def addVote_def proposal_body_def ballot_def citizen_def
      trim_def is_space_def proposal_categories_def proposal_statuses_def vote_choices_def
      default_def bump_def Let_def)

lemma backend_revised_eq:
  "backend_revised =
     \<lparr>proposalDocs = [0 \<mapsto> \<lparr>p_title = ''P1'', p_description = ''Plant trees'',
                              category = ''Environment'', author = 10, p_status = ''voting'',
                              voteCount = \<lparr>yes = Num (Finite 0), no = Num (Finite 0), abstain = Num (Finite 0)\<rparr>,
                              votingDeadline = Some 100\<rparr>],
      voteDocs = [\<lparr>v_id = 1, v_proposal = 0, v_user = 11, vote = ''yes'',
                   reason = Some ''on reflection''\<rparr>],
      responseDocs = [], nextId = 2\<rparr>"
  by (simp add: backend_revised_def api_run_def empty_Backend_def reason_only_def
      createProposal_api_def addVote_def updateVote_def breaks_unique_index_def
      apply_vote_body_def proposal_body_def ballot_def citizen_def
      trim_def is_space_def proposal_categories_def proposal_statuses_def vote_choices_def
      default_def bump_def round_double_exact Let_def)


lemma backend_open_eq:
  "backend_open =
     \<lparr>proposalDocs = [0 \<mapsto> \<lparr>p_title = ''P1'', p_description = ''Plant trees'',
                              category = ''Environment'', author = 10, p_status = ''voting'',
                              voteCount = \<lparr>yes = Num (Finite 0), no = Num (Finite 0), abstain = Num (Finite 0)\<rparr>,
                              votingDeadline = Some 100\<rparr>],
      voteDocs = [], responseDocs = [], nextId = 1\<rparr>"
  by (simp add: backend_open_def api_run_def empty_Backend_def
      createProposal_api_def proposal_body_def citizen_def
      trim_def is_space_def proposal_categories_def proposal_statuses_def
      default_def Let_def)

lemma backend_answered_eq:
  "backend_answered =
     \<lparr>proposalDocs = [0 \<mapsto> \<lparr>p_title = ''P1'', p_description = ''Plant trees'',
                              category = ''Environment'', author = 10, p_status = ''approved'',
                              voteCount = \<lparr>yes = Num (Finite 0), no = Num (Finite 0), abstain = Num (Finite 0)\<rparr>,
                              votingDeadline = Some 100\<rparr>],
      voteDocs = [],
      responseDocs = [\<lparr>o_id = 1, o_proposal = 0, respondent = 20, department = ''Parks'',
                       position = ''Director'', o_status = ''approved'',
                       response = ''We will look into it'', rationale = None,
                       nextSteps = None, isVerified = False, verificationProof = None\<rparr>],
      nextId = 2\<rparr>"
  by (simp add: backend_answered_def api_run_def empty_Backend_def
      createProposal_api_def createOfficialResponse_def set_proposal_status_def
      proposal_status_of_def proposal_body_def response_body_def citizen_def official_def
      trim_def is_space_def proposal_categories_def proposal_statuses_def
      response_statuses_def default_def Let_def)

subsection \<open>The tallies and the vote records\<close>

text \<open>
  Claim C2: the yes, no and abstain counts of a proposal add up to the number of its
  vote records, and after three distinct users vote yes, yes and no, \<open>getVotes\<close>
  answers 2, 1, 0 and the total 3. The example is what the code does on a proposal that
  is open for voting. The counts and the records part at \<open>updateVote\<close>: it takes 1
  from the counter of the old choice, adds 1 under the key of the new one and saves the
  proposal before the vote is validated and updated. With a body that has a reason and
  no choice there is no counter under that key: the voter's record is still there, still
  a yes, and the counts are 0, 0, 0 with the total 0.
\<close>

theorem tally_lost_by_update_without_choice:
  "getVotes 0 backend_voted
     = Inr \<lparr>s_yes = Num (Finite 2), s_no = Num (Finite 1), s_abstain = Num (Finite 0), s_total = Finite 3\<rparr> \<and>
   length (voteDocs backend_voted) = 3 \<and>
   voteDocs backend_revised
     = [\<lparr>v_id = 1, v_proposal = 0, v_user = 11, vote = ''yes'',
         reason = Some ''on reflection''\<rparr>] \<and>
   getVotes 0 backend_revised
     = Inr \<lparr>s_yes = Num (Finite 0), s_no = Num (Finite 0), s_abstain = Num (Finite 0), s_total = Finite 0\<rparr>"
  by (simp add: backend_voted_eq backend_revised_eq getVotes_def round_double_exact)

subsection \<open>Votes, in the contract and in the backend\<close>

lemma addVote_existing:
  "proposalDocs b i = Some d \<Longrightarrow>
   find (\<lambda>v. v_user v = u_id u \<and> v_proposal v = i) (voteDocs b) = Some v \<Longrightarrow>
   addVote u i vb b = (b, Inl (if p_status d \<noteq> ''voting'' then NotOpenForVoting else AlreadyVoted))"
  by (simp add: addVote_def)

lemma addVote_closed:
  "proposalDocs b i = Some d \<Longrightarrow> p_status d \<noteq> ''voting'' \<Longrightarrow>
   addVote u i vb b = (b, Inl NotOpenForVoting)"
  by (simp add: addVote_def)

lemma addVote_outcome:
  "(case addVote u i vb b of
      (b', Inl e) \<Rightarrow> b' = b
    | (b', Inr v) \<Rightarrow>
        (case proposalDocs b i of
           None \<Rightarrow> False
         | Some d \<Rightarrow>
             p_status d = ''voting'' \<and> vb_vote vb = Some (vote v) \<and>
             vote v \<in> set vote_choices \<and>
             voteDocs b' = voteDocs b @ [v] \<and>
             proposalDocs b' =
               (proposalDocs b)(i \<mapsto> d\<lparr>voteCount := bump (Some (vote v)) 1 (voteCount d)\<rparr>) \<and>
             yes (bump (Some (vote v)) 1 (voteCount d))
               = (if vote v = ''yes'' then Num (js_plus (to_number (yes (voteCount d))) (Finite 1))
                  else yes (voteCount d)) \<and>
             no (bump (Some (vote v)) 1 (voteCount d))
               = (if vote v = ''no'' then Num (js_plus (to_number (no (voteCount d))) (Finite 1))
                  else no (voteCount d)) \<and>
             abstain (bump (Some (vote v)) 1 (voteCount d))
               = (if vote v = ''abstain''
                  then Num (js_plus (to_number (abstain (voteCount d))) (Finite 1))
                  else abstain (voteCount d))))"
  by (auto simp: addVote_def Let_def bump_def vote_choices_def split: option.splits)

lemma js_plus_safe:
  "\<bar>n\<bar> < 2 ^ 53 \<Longrightarrow> js_plus (Finite (of_int n)) (Finite 1) = Finite (of_int (n + 1))"
proof -
  assume "\<bar>n\<bar> < 2 ^ 53"
  then have "\<bar>n + 1\<bar> \<le> 2 ^ 53" by simp
  then have "\<bar>(of_int (n + 1) :: rat)\<bar> \<le> of_int (2 ^ 53)"
    by (simp only: of_int_abs [symmetric] of_int_le_iff)
  then have "round_double (of_int (n + 1)) = Finite (of_int (n + 1))"
    by (intro round_double_exact) simp_all
  then show ?thesis by simp
qed

lemma castVote_closed:
  "verifiedVoters s sender \<Longrightarrow> 0 < p \<Longrightarrow> p \<le> proposalCount s \<Longrightarrow>
   status (proposals s p) \<noteq> Active \<or> votingEndTime (proposals s p) \<le> now \<Longrightarrow>
   castVote sender now p support s
     = Inl (if votingEndTime (proposals s p) \<le> now then VotingPeriodEnded else ProposalNotActive)"
  by (auto simp: castVote_result)

lemma castVote_outcome:
  "(case castVote sender now p support s of
      Inl e \<Rightarrow> True
    | Inr s' \<Rightarrow>
        s' = checkProposalStatus now p (vote_applied sender now p support s) \<and>
        yesVotes (proposals s' p) = yesVotes (proposals s p) + (if support then 1 else 0) \<and>
        noVotes (proposals s' p) = noVotes (proposals s p) + (if support then 0 else 1) \<and>
        hasVoted (proposals s' p) sender \<and>
        status (proposals s' p) = Active)"
  by (simp add: castVote_result checkProposalStatus_def vote_applied_def Let_def)

text \<open>
  Claim C5, as the code has it. In the contract, for a verified voter and an existing
  proposal, \<open>castVote\<close> reverts with "Voting period has ended" when the block time has
  reached the voting end, and with "Proposal is not active" when the status is not
  Active; when it succeeds, the state is that of \<open>checkProposalStatus\<close> run after the
  vote was recorded, and the chosen count is one higher, the other as before. In the
  backend, \<open>addVote\<close> on an existing proposal answers "not currently open for voting"
  when the status is not \<open>voting\<close>, and leaves the database as it was; when it
  succeeds, 1 is added to the chosen counter of the proposal, as JavaScript adds
  numbers, and the others are as before: a counter that is an integer of magnitude
  below \<open>2 ^ 53\<close> is one higher, and a counter that is \<open>2 ^ 53\<close> stays as it is.
  \<open>addVote\<close> does not read \<open>votingDeadline\<close> and runs no check that closes the vote.
\<close>

theorem vote_refused_when_closed_else_counted:
  "(verifiedVoters s sender \<and> 0 < p \<and> p \<le> proposalCount s \<and>
      (status (proposals s p) \<noteq> Active \<or> votingEndTime (proposals s p) \<le> now) \<longrightarrow>
      castVote sender now p support s
        = Inl (if votingEndTime (proposals s p) \<le> now then VotingPeriodEnded
               else ProposalNotActive)) \<and>
   (case castVote sender now p support s of
      Inl e \<Rightarrow> True
    | Inr s' \<Rightarrow>
        s' = checkProposalStatus now p (vote_applied sender now p support s) \<and>
        yesVotes (proposals s' p) = yesVotes (proposals s p) + (if support then 1 else 0) \<and>
        noVotes (proposals s' p) = noVotes (proposals s p) + (if support then 0 else 1) \<and>
        hasVoted (proposals s' p) sender \<and>
        status (proposals s' p) = Active) \<and>
   (proposalDocs b i = Some d \<and> p_status d \<noteq> ''voting'' \<longrightarrow>
      addVote u i vb b = (b, Inl NotOpenForVoting)) \<and>
   (case addVote u i vb b of
      (b', Inl e) \<Rightarrow> b' = b
    | (b', Inr v) \<Rightarrow>
        (case proposalDocs b i of
           None \<Rightarrow> False
         | Some d \<Rightarrow>
             p_status d = ''voting'' \<and> vb_vote vb = Some (vote v) \<and>
             vote v \<in> set vote_choices \<and>
             voteDocs b' = voteDocs b @ [v] \<and>
             proposalDocs b' =
               (proposalDocs b)(i \<mapsto> d\<lparr>voteCount := bump (Some (vote v)) 1 (voteCount d)\<rparr>) \<and>
             yes (bump (Some (vote v)) 1 (voteCount d))
               = (if vote v = ''yes'' then Num (js_plus (to_number (yes (voteCount d))) (Finite 1))
                  else yes (voteCount d)) \<and>
             no (bump (Some (vote v)) 1 (voteCount d))
               = (if vote v = ''no'' then Num (js_plus (to_number (no (voteCount d))) (Finite 1))
                  else no (voteCount d)) \<and>
             abstain (bump (Some (vote v)) 1 (voteCount d))
               = (if vote v = ''abstain''
                  then Num (js_plus (to_number (abstain (voteCount d))) (Finite 1))
                  else abstain (voteCount d)))) \<and>
   (\<bar>n\<bar> < 2 ^ 53 \<longrightarrow>
      js_plus (Finite (of_int n)) (Finite 1) = Finite (of_int (n + 1))) \<and>
   js_plus (Finite 9007199254740992) (Finite 1) = Finite 9007199254740992"
  using castVote_closed [where s = s and sender = sender and p = p and now = now and support = support]
    castVote_outcome [where s = s and sender = sender and p = p and now = now and support = support]
    addVote_closed [where b = b and i = i and d = d and u = u and vb = vb]
    addVote_outcome [where b = b and i = i and u = u and vb = vb]
    js_plus_safe [where n = n] js_plus_saturates
  by blast

theorem vote_refused_when_closed_else_counted_witness:
  "verifiedVoters gov_voted 2 \<and> 0 < (1::nat) \<and> 1 \<le> proposalCount gov_voted \<and>
   votingEndTime (proposals gov_voted 1) \<le> 604900 \<and>
   castVote 2 604900 1 True gov_voted = Inl VotingPeriodEnded \<and>
   proposalDocs backend_submitted 0
     = Some \<lparr>p_title = ''P1'', p_description = ''Plant trees'', category = ''Environment'',
             author = 10, p_status = ''submitted'',
             voteCount = \<lparr>yes = Num (Finite 0), no = Num (Finite 0), abstain = Num (Finite 0)\<rparr>,
             votingDeadline = Some 100\<rparr> \<and>
   addVote (citizen 11) 0 (ballot ''yes'') backend_submitted
     = (backend_submitted, Inl NotOpenForVoting) \<and>
   \<bar>2::int\<bar> < 2 ^ 53 \<and> js_plus (Finite 2) (Finite 1) = Finite 3"
  using vote_refused_when_closed_else_counted
    [where s = gov_voted and sender = 2 and p = 1 and now = 604900 and support = True
       and b = backend_submitted and i = 0 and u = "citizen 11" and vb = "ballot ''yes''"
       and d = "\<lparr>p_title = ''P1'', p_description = ''Plant trees'', category = ''Environment'',
             author = 10, p_status = ''submitted'',
             voteCount = \<lparr>yes = Num (Finite 0), no = Num (Finite 0), abstain = Num (Finite 0)\<rparr>,
             votingDeadline = Some 100\<rparr>"
       and n = 2]
  by (simp add: gov_voted_eq backend_submitted_eq)

text \<open>
  Against C5 as stated: the proposal below is in status \<open>voting\<close> with the voting
  deadline 100. \<open>addVote\<close> takes no time and reads no clock, so a request made after the
  deadline is this one: the vote is stored and counted, and the status stays \<open>voting\<close>.
\<close>

theorem addVote_after_deadline_counted:
  "map_option votingDeadline (proposalDocs backend_open 0) = Some (Some 100) \<and>
   snd (addVote (citizen 11) 0 (ballot ''yes'') backend_open)
     = Inr \<lparr>v_id = 1, v_proposal = 0, v_user = 11, vote = ''yes'', reason = None\<rparr> \<and>
   map_option voteCount (proposalDocs (fst (addVote (citizen 11) 0 (ballot ''yes'') backend_open)) 0)
     = Some \<lparr>yes = Num (Finite 1), no = Num (Finite 0), abstain = Num (Finite 0)\<rparr> \<and>
   map_option p_status (proposalDocs (fst (addVote (citizen 11) 0 (ballot ''yes'') backend_open)) 0)
     = Some ''voting''"
  by (simp add: backend_open_eq addVote_def ballot_def citizen_def vote_choices_def bump_def
      round_double_exact Let_def)

text \<open>
  Claim C3, as the code has it. A second vote always fails and changes nothing, and
  the checks that come first decide the error. In the contract, with the voter's
  \<open>hasVoted\<close> flag set, \<open>castVote\<close> reverts with "Already voted on this proposal" only
  when the voter is verified, the id exists, the voting end has not been reached and the
  status is Active; otherwise with the error of the first check that fails. In the
  backend, with a vote of the user on an existing proposal, \<open>addVote\<close> answers "You have
  already voted on this proposal" when the status is \<open>voting\<close> and "not currently
  open for voting" otherwise.
\<close>

theorem second_vote_refused:
  "(hasVoted (proposals s p) sender \<longrightarrow>
      castVote sender now p support s
        = Inl (if \<not> verifiedVoters s sender then OnlyVerifiedVoter
               else if \<not> (p \<le> proposalCount s \<and> 0 < p) then InvalidProposalID
               else if votingEndTime (proposals s p) \<le> now then VotingPeriodEnded
               else if status (proposals s p) \<noteq> Active then ProposalNotActive
               else AlreadyVotedOnProposal) \<and>
      gov_tx (sender, now, CastVote p support) s = s) \<and>
   (proposalDocs b i = Some d \<and>
      find (\<lambda>v. v_user v = u_id u \<and> v_proposal v = i) (voteDocs b) = Some v \<longrightarrow>
      addVote u i vb b
        = (b, Inl (if p_status d \<noteq> ''voting'' then NotOpenForVoting else AlreadyVoted)))"
  using addVote_existing [where b = b and i = i and d = d and u = u and v = v and vb = vb]
  by (auto simp: castVote_result)

theorem second_vote_refused_witness:
  "hasVoted (proposals gov_voted 1) 2 \<and>
   castVote 2 200 1 False gov_voted = Inl AlreadyVotedOnProposal \<and>
   gov_tx (2, 200, CastVote 1 False) gov_voted = gov_voted \<and>
   proposalDocs backend_voted 0
     = Some \<lparr>p_title = ''P1'', p_description = ''Plant trees'', category = ''Environment'',
             author = 10, p_status = ''voting'', voteCount = \<lparr>yes = Num (Finite 2), no = Num (Finite 1), abstain = Num (Finite 0)\<rparr>,
             votingDeadline = Some 100\<rparr> \<and>
   find (\<lambda>v. v_user v = u_id (citizen 11) \<and> v_proposal v = 0) (voteDocs backend_voted)
     = Some \<lparr>v_id = 1, v_proposal = 0, v_user = 11, vote = ''yes'', reason = None\<rparr> \<and>
   addVote (citizen 11) 0 (ballot ''no'') backend_voted = (backend_voted, Inl AlreadyVoted)"
  using second_vote_refused
    [where s = gov_voted and sender = 2 and p = 1 and now = 200 and support = False
       and b = backend_voted and i = 0 and u = "citizen 11" and vb = "ballot ''no''"
       and d = "\<lparr>p_title = ''P1'', p_description = ''Plant trees'', category = ''Environment'',
             author = 10, p_status = ''voting'', voteCount = \<lparr>yes = Num (Finite 2), no = Num (Finite 1), abstain = Num (Finite 0)\<rparr>,
             votingDeadline = Some 100\<rparr>"
       and v = "\<lparr>v_id = 1, v_proposal = 0, v_user = 11, vote = ''yes'', reason = None\<rparr>"]
  by (simp add: gov_voted_eq backend_voted_eq citizen_def)

text \<open>
  Against C3 as stated: voter 2 has voted on proposal 1; a second vote at the voting
  end is refused with "Voting period has ended", not with "Already voted on this
  proposal".
\<close>

theorem second_vote_after_deadline:
  "hasVoted (proposals gov_voted 1) 2 \<and>
   castVote 2 604900 1 True gov_voted = Inl VotingPeriodEnded"
  by (simp add: gov_voted_eq castVote_result)

subsection \<open>Official responses\<close>

lemma find_update_response_doc:
  "find (\<lambda>r. o_id r = i) (update_response_doc i body rs)
     = map_option (apply_response_body body) (find (\<lambda>r. o_id r = i) rs)"
  by (induction rs) (auto simp: apply_response_body_def)

lemma o_status_apply_response_body:
  "o_status (apply_response_body body r) = default (o_status r) (rb_status body)"
  by (simp add: apply_response_body_def)

lemma status_synchronised:
  "(truthy st \<and> st \<noteq> Some (default old st)) = False"
  by (cases st) (simp_all add: default_def)

lemma truthy_default: "truthy st \<Longrightarrow> st = Some (default old st)"
  by (cases st) (simp_all add: default_def)

text \<open>
  Claim C7, as the code has it. For an existing proposal that has an official response,
  \<open>createOfficialResponse\<close> by a government official answers "An official response
  already exists for this proposal"; the check of the user comes first, and a user who
  is not a government official is answered "Not authorized to provide official
  responses". Either way the database, and so the response there, stays as it was.
\<close>

theorem duplicate_official_response_refused:
  assumes "proposalDocs s i = Some d"
    and "find (\<lambda>r. o_proposal r = i) (responseDocs s) = Some r"
  shows "createOfficialResponse service u now i body s
           = (s, Inl (if isGovernmentOfficial u then ResponseExists else NotOfficial)) \<and>
         getOfficialResponse i (fst (createOfficialResponse service u now i body s)) = Inr r"
  using assms by (simp add: createOfficialResponse_def getOfficialResponse_def)

theorem duplicate_official_response_refused_witness:
  "createOfficialResponse no_service (official 21) 60 0 (response_body ''rejected'') backend_answered
     = (backend_answered, Inl ResponseExists) \<and>
   getOfficialResponse 0 backend_answered
     = Inr \<lparr>o_id = 1, o_proposal = 0, respondent = 20, department = ''Parks'',
            position = ''Director'', o_status = ''approved'',
            response = ''We will look into it'', rationale = None,
            nextSteps = None, isVerified = False, verificationProof = None\<rparr>"
proof -
  have h1: "proposalDocs backend_answered 0
     = Some \<lparr>p_title = ''P1'', p_description = ''Plant trees'', category = ''Environment'',
             author = 10, p_status = ''approved'', voteCount = \<lparr>yes = Num (Finite 0), no = Num (Finite 0), abstain = Num (Finite 0)\<rparr>,
             votingDeadline = Some 100\<rparr>"
    by (simp add: backend_answered_eq)
  have h2: "find (\<lambda>r. o_proposal r = 0) (responseDocs backend_answered)
     = Some \<lparr>o_id = 1, o_proposal = 0, respondent = 20, department = ''Parks'',
            position = ''Director'', o_status = ''approved'',
            response = ''We will look into it'', rationale = None,
            nextSteps = None, isVerified = False, verificationProof = None\<rparr>"
    by (simp add: backend_answered_eq)
  show ?thesis
    using duplicate_official_response_refused [OF h1 h2, where service = no_service
        and u = "official 21" and now = 60 and body = "response_body ''rejected''"]
    by (simp add: official_def getOfficialResponse_def h2)
qed

text \<open>
  Against C7 as stated: the proposal has an official response, and a user who is not a
  government official asks for another; the answer is the 403, not the duplicate.
\<close>

theorem duplicate_by_citizen_unauthorized:
  "getOfficialResponse 0 backend_answered
     = Inr \<lparr>o_id = 1, o_proposal = 0, respondent = 20, department = ''Parks'',
            position = ''Director'', o_status = ''approved'',
            response = ''We will look into it'', rationale = None,
            nextSteps = None, isVerified = False, verificationProof = None\<rparr> \<and>
   createOfficialResponse no_service (citizen 11) 60 0 (response_body ''rejected'') backend_answered
     = (backend_answered, Inl NotOfficial)"
  by (simp add: backend_answered_eq getOfficialResponse_def createOfficialResponse_def
      citizen_def)

text \<open>
  Claim C10. \<open>updateOfficialResponse\<close> leaves every proposal as it was, whatever the
  request and whether it succeeds or not. When it succeeds, the response it returns is
  the updated one, so a status given in the body equals the status of that response and
  the comparison that guards the update of the proposal is false.
\<close>

theorem updateOfficialResponse_leaves_proposals:
  "proposalDocs (fst (updateOfficialResponse service u now respId body s)) = proposalDocs s \<and>
   (case snd (updateOfficialResponse service u now respId body s) of
      Inl e \<Rightarrow> True
    | Inr resp' \<Rightarrow> \<not> (truthy (rb_status body) \<and> rb_status body \<noteq> Some (o_status resp')))"
  by (auto simp: updateOfficialResponse_def Let_def find_update_response_doc
      o_status_apply_response_body status_synchronised truthy_default [symmetric]
      split: option.splits sum.splits)

text \<open>
  An update that changes the status of the response from \<open>approved\<close> to \<open>rejected\<close>:
  the response is \<open>rejected\<close>, the proposal is still \<open>approved\<close>.
\<close>

theorem updateOfficialResponse_example:
  "map_option p_status (proposalDocs backend_answered 0) = Some ''approved'' \<and>
   map_option o_status
     (find (\<lambda>r. o_id r = 1)
        (responseDocs (fst (updateOfficialResponse no_service (official 20) 70 1
                              (response_body ''rejected'') backend_answered))))
     = Some ''rejected'' \<and>
   map_option p_status
     (proposalDocs (fst (updateOfficialResponse no_service (official 20) 70 1
                           (response_body ''rejected'') backend_answered)) 0)
     = Some ''approved''"
  using updateOfficialResponse_leaves_proposals
    [where service = no_service and u = "official 20" and now = 70 and respId = 1
       and body = "response_body ''rejected''" and s = backend_answered]
  by (simp add: backend_answered_eq updateOfficialResponse_def response_body_def official_def
      response_statuses_def apply_response_body_def default_def Let_def)

end
